theory Spec2Isabelle
  imports Complex_Main "HOL-Library.Word"
begin

unbundle bit_operations_syntax

section \<open>EDID decoder: data model\<close>

text \<open>
  The decoder works on a \<open>Uint8ClampedArray\<close>: a fixed-length sequence of unsigned
  8-bit values.  A byte that has been read is an ordinary number in the source, so
  reads return \<open>nat\<close> (the \<open>unat\<close> of the stored byte) and the arithmetic on them does
  not wrap.  Offsets are never negative in the source (the smallest offset computed
  by subtraction is \<open>descriptorOffset - 1\<close> with \<open>descriptorOffset \<ge> 54\<close>), so they
  are \<open>nat\<close> and the \<open>absoluteOffset < 0\<close> half of the bounds check is vacuous.
\<close>

type_synonym byte = "8 word"

datatype ParsedEdidWarningCode =
    too_short
  | length_not_multiple_of_128
  | invalid_header
  | checksum_failed
  | extension_count_mismatch
  | unknown_edid_minor_version
  | unknown_extension_tag
  | unknown_data_block
  | parse_error
  | out_of_range_read

text \<open>
  A warning carries its code, block index and offset.  The message text is fixed by
  the call site and the \<open>detail\<close> payload is opaque to every consumer; neither is
  carried.
\<close>

record ParsedEdidWarning =
  code :: ParsedEdidWarningCode
  blockIndex :: "nat option"
  offset :: "nat option"

definition warn ::
  "ParsedEdidWarning list \<Rightarrow> ParsedEdidWarningCode \<Rightarrow> nat option \<Rightarrow> nat option
     \<Rightarrow> ParsedEdidWarning list" where
  "warn warnings c bi off = warnings @ [\<lparr>code = c, blockIndex = bi, offset = off\<rparr>]"

definition EDID_BLOCK_LENGTH :: nat where
  "EDID_BLOCK_LENGTH = 128"

subsection \<open>Byte reader\<close>

text \<open>
  \<open>readU8\<close> returns the byte, or nothing together with an \<open>out_of_range_read\<close>
  warning appended to the context's warnings.
\<close>

definition readU8 ::
  "byte list \<Rightarrow> ParsedEdidWarning list \<Rightarrow> nat \<Rightarrow> nat option \<Rightarrow> nat option
     \<Rightarrow> nat option \<times> ParsedEdidWarning list" where
  "readU8 bytes warnings absoluteOffset bi relativeOffset =
     (if absoluteOffset \<ge> length bytes
      then (None, warn warnings out_of_range_read bi
                    (Some (case relativeOffset of Some r \<Rightarrow> r | None \<Rightarrow> absoluteOffset)))
      else (Some (unat (bytes ! absoluteOffset)), warnings))"

text \<open>
  A block reader binds the byte buffer to one block's index and base offset.  Its two
  closures \<open>u8\<close> and \<open>u8OrZero\<close> are split into the value they return and the
  warnings they log: \<open>u8\<close>/\<open>u8OrZero\<close> give the value, \<open>u8_log\<close> appends the warning
  of one read (if any) and \<open>reads\<close> appends the warnings of a sequence of reads in
  the order in which the source performs them.
\<close>

record BlockReader =
  rdBytes :: "byte list"
  rdBlockIndex :: nat
  rdBlockOffset :: nat

definition createBlockReader :: "byte list \<Rightarrow> nat \<Rightarrow> nat \<Rightarrow> BlockReader" where
  "createBlockReader bytes bi bo = \<lparr>rdBytes = bytes, rdBlockIndex = bi, rdBlockOffset = bo\<rparr>"

definition u8 :: "BlockReader \<Rightarrow> nat \<Rightarrow> nat option" where
  "u8 r off = fst (readU8 (rdBytes r) [] (rdBlockOffset r + off) (Some (rdBlockIndex r)) (Some off))"

definition u8_log :: "BlockReader \<Rightarrow> ParsedEdidWarning list \<Rightarrow> nat \<Rightarrow> ParsedEdidWarning list" where
  "u8_log r warnings off =
     snd (readU8 (rdBytes r) warnings (rdBlockOffset r + off) (Some (rdBlockIndex r)) (Some off))"

definition u8OrZero :: "BlockReader \<Rightarrow> nat \<Rightarrow> nat" where
  "u8OrZero r off = (case u8 r off of Some b \<Rightarrow> b | None \<Rightarrow> 0)"

definition reads :: "BlockReader \<Rightarrow> ParsedEdidWarning list \<Rightarrow> nat list \<Rightarrow> ParsedEdidWarning list" where
  "reads r warnings offs = foldl (u8_log r) warnings offs"

subsection \<open>Checksums\<close>

definition getChecksum :: "BlockReader \<Rightarrow> nat" where
  "getChecksum r = u8OrZero r 127"

function calcChecksum_loop :: "byte list \<Rightarrow> nat \<Rightarrow> nat \<Rightarrow> nat \<Rightarrow> nat" where
  "calcChecksum_loop bytes index endAddress checksum =
     (if index < endAddress
      then calcChecksum_loop bytes (index + 1) endAddress
             (checksum + (if index < length bytes then unat (bytes ! index) else 0))
      else checksum)"
  by pat_completeness auto
termination
  by (relation "measure (\<lambda>(bytes, index, endAddress, checksum). endAddress - index)") auto

declare calcChecksum_loop.simps [simp del]

definition calcChecksum :: "byte list \<Rightarrow> nat \<Rightarrow> nat option" where
  "calcChecksum bytes block =
     (let startAddress = block * EDID_BLOCK_LENGTH;
          endAddress = startAddress + EDID_BLOCK_LENGTH - 1
      in if length bytes < endAddress + 1 then None
         else Some (256 - (calcChecksum_loop bytes startAddress endAddress 0) mod 256))"

definition validChecksum ::
  "byte list \<Rightarrow> ParsedEdidWarning list \<Rightarrow> nat \<Rightarrow> nat
     \<Rightarrow> bool option \<times> ParsedEdidWarning list" where
  "validChecksum bytes warnings block blockIndexForWarning =
     (let checksumOffset = (block + 1) * EDID_BLOCK_LENGTH - 1;
          (checksum, warnings') =
             readU8 bytes warnings checksumOffset (Some blockIndexForWarning) (Some 127)
      in case checksum of
           None \<Rightarrow> (None, warnings')
         | Some c \<Rightarrow>
             (case calcChecksum bytes block of
                None \<Rightarrow> (None, warnings')
              | Some calculatedChecksum \<Rightarrow> (Some (c = calculatedChecksum), warnings')))"

subsection \<open>Standard display modes\<close>

record StandardDisplayMode =
  xResolutionPx :: nat
  xyPixelRatio :: nat
  vertFreqHz :: nat

function getStandardDisplayModes_loop ::
  "BlockReader \<Rightarrow> ParsedEdidWarning list \<Rightarrow> nat \<Rightarrow> StandardDisplayMode list
     \<Rightarrow> StandardDisplayMode list \<times> ParsedEdidWarning list" where
  "getStandardDisplayModes_loop r warnings index stdDispModesArray =
     (if index < 53
      then (let warnings' = reads r warnings [index, index + 1]
            in case (u8 r index, u8 r (index + 1)) of
                 (Some byte1, Some byte2) \<Rightarrow>
                   (if byte1 \<noteq> 1 \<and> byte2 \<noteq> 1
                    then getStandardDisplayModes_loop r warnings' (index + 2)
                           (stdDispModesArray @
                              [\<lparr>xResolutionPx = (byte1 + 31) * 8,
                                xyPixelRatio = (drop_bit 6 byte2) AND 3,
                                vertFreqHz = (byte2 AND 63) + 60\<rparr>])
                    else getStandardDisplayModes_loop r warnings' (index + 2) stdDispModesArray)
               | _ \<Rightarrow> (stdDispModesArray, warnings'))
      else (stdDispModesArray, warnings))"
  by pat_completeness auto
termination
  by (relation "measure (\<lambda>(r, warnings, index, acc). 53 - index)") auto

declare getStandardDisplayModes_loop.simps [simp del]

definition getStandardDisplayModes ::
  "BlockReader \<Rightarrow> ParsedEdidWarning list
     \<Rightarrow> StandardDisplayMode list \<times> ParsedEdidWarning list" where
  "getStandardDisplayModes r warnings = getStandardDisplayModes_loop r warnings 38 []"

subsection \<open>JavaScript numbers\<close>

text \<open>
  Values that the source computes with fractional arithmetic (pixel clocks, refresh
  rates) are JavaScript numbers.  They are modelled exactly, as rationals, together
  with the three non-finite values; the rounding error of IEEE doubles is not
  modelled.  \<open>Math.round\<close> rounds half up.
\<close>

datatype jsnum = Num rat | PosInfinity | NegInfinity | NaN

fun isFinite :: "jsnum \<Rightarrow> bool" where
  "isFinite (Num _) = True"
| "isFinite _ = False"

fun js_less :: "jsnum \<Rightarrow> jsnum \<Rightarrow> bool" where
  "js_less NaN _ = False"
| "js_less _ NaN = False"
| "js_less (Num a) (Num b) = (a < b)"
| "js_less (Num _) PosInfinity = True"
| "js_less (Num _) NegInfinity = False"
| "js_less PosInfinity _ = False"
| "js_less NegInfinity NegInfinity = False"
| "js_less NegInfinity _ = True"

fun js_le :: "jsnum \<Rightarrow> jsnum \<Rightarrow> bool" where
  "js_le NaN _ = False"
| "js_le _ NaN = False"
| "js_le a b = (a = b \<or> js_less a b)"

fun Math_round :: "jsnum \<Rightarrow> jsnum" where
  "Math_round (Num r) = Num (of_int \<lfloor>r + 1 / 2\<rfloor>)"
| "Math_round x = x"

fun Math_min :: "jsnum \<Rightarrow> jsnum \<Rightarrow> jsnum" where
  "Math_min NaN _ = NaN"
| "Math_min _ NaN = NaN"
| "Math_min a b = (if js_less b a then b else a)"

fun Math_max :: "jsnum \<Rightarrow> jsnum \<Rightarrow> jsnum" where
  "Math_max NaN _ = NaN"
| "Math_max _ NaN = NaN"
| "Math_max a b = (if js_less a b then b else a)"

definition num :: "nat \<Rightarrow> jsnum" where
  "num n = Num (of_nat n)"

subsection \<open>Detailed timing descriptors\<close>

text \<open>
  \<open>flag b m\<close> is the source's \<open>b & m ? true : false\<close>.
\<close>

definition flag :: "nat \<Rightarrow> nat \<Rightarrow> bool" where
  "flag b m = (b AND m \<noteq> 0)"

text \<open>
  The descriptor carries every field of the source's \<open>Dtd\<close> except the diagonal
  size, which is a square root.  The two pairs of fields whose meaning depends on
  the sync type are optional: exactly one of each pair is set.
\<close>

record Dtd =
  pixelClockMhz :: rat
  horizontalActivePixels :: nat
  horizontalBlankLineCount :: nat
  verticalActivePixels :: nat
  verticalBlankLineCount :: nat
  horizontalSyncOffsetPixels :: nat
  horizontalSyncPulsePixels :: nat
  verticalSyncOffset :: nat
  verticalSyncPulseLineCount :: nat
  horizontalDisplaySizeInMm :: nat
  verticalDisplaySizeInMm :: nat
  horizontalBorderPixels :: nat
  verticalBorderLines :: nat
  isInterlaced :: bool
  stereoModeCode :: nat
  syncTypeCode :: nat
  vSyncPolarity :: "bool option"
  vSyncSerrated :: "bool option"
  syncAllRGBLines :: "bool option"
  hSyncPolarity :: "bool option"
  twoWayStereo :: bool

definition DTD_LENGTH :: nat where
  "DTD_LENGTH = 18"

definition parseDtd_reads :: "nat \<Rightarrow> nat list" where
  "parseDtd_reads o' =
     [o' + 4, o' + 2, o' + 4, o' + 3, o' + 7, o' + 5, o' + 7, o' + 6,
      o' + 11, o' + 8, o' + 11, o' + 9, o' + 11, o' + 10, o' + 11, o' + 10,
      o' + 14, o' + 12, o' + 14, o' + 13, o' + 15, o' + 16,
      o' + 17, o' + 17, o' + 17, o' + 17, o' + 17, o' + 17]"

definition parseDtd ::
  "BlockReader \<Rightarrow> ParsedEdidWarning list \<Rightarrow> nat \<Rightarrow> Dtd option \<times> ParsedEdidWarning list" where
  "parseDtd r warnings dtdOffset =
     (let warnings1 = reads r warnings [dtdOffset, dtdOffset + 1]
      in case (u8 r dtdOffset, u8 r (dtdOffset + 1)) of
           (Some pixelClockLo, Some pixelClockHi) \<Rightarrow>
             (let b17 = u8OrZero r (dtdOffset + 17);
                  sync = (drop_bit 3 b17) AND 3
              in (Some \<lparr>
                    pixelClockMhz = of_nat ((push_bit 8 pixelClockHi) OR pixelClockLo) / 100,
                    horizontalActivePixels =
                      (push_bit 8 ((drop_bit 4 (u8OrZero r (dtdOffset + 4))) AND 15))
                        OR u8OrZero r (dtdOffset + 2),
                    horizontalBlankLineCount =
                      (push_bit 8 (u8OrZero r (dtdOffset + 4) AND 15))
                        OR u8OrZero r (dtdOffset + 3),
                    verticalActivePixels =
                      (push_bit 8 ((drop_bit 4 (u8OrZero r (dtdOffset + 7))) AND 15))
                        OR u8OrZero r (dtdOffset + 5),
                    verticalBlankLineCount =
                      (push_bit 8 (u8OrZero r (dtdOffset + 7) AND 15))
                        OR u8OrZero r (dtdOffset + 6),
                    horizontalSyncOffsetPixels =
                      (push_bit 8 ((drop_bit 6 (u8OrZero r (dtdOffset + 11))) AND 3))
                        OR u8OrZero r (dtdOffset + 8),
                    horizontalSyncPulsePixels =
                      (push_bit 8 ((drop_bit 4 (u8OrZero r (dtdOffset + 11))) AND 3))
                        OR u8OrZero r (dtdOffset + 9),
                    verticalSyncOffset =
                      (push_bit 4 ((drop_bit 2 (u8OrZero r (dtdOffset + 11))) AND 3))
                        OR ((drop_bit 4 (u8OrZero r (dtdOffset + 10))) AND 15),
                    verticalSyncPulseLineCount =
                      (push_bit 4 (u8OrZero r (dtdOffset + 11) AND 3))
                        OR (u8OrZero r (dtdOffset + 10) AND 15),
                    horizontalDisplaySizeInMm =
                      (push_bit 8 ((drop_bit 4 (u8OrZero r (dtdOffset + 14))) AND 15))
                        OR u8OrZero r (dtdOffset + 12),
                    verticalDisplaySizeInMm =
                      (push_bit 8 (u8OrZero r (dtdOffset + 14) AND 15))
                        OR u8OrZero r (dtdOffset + 13),
                    horizontalBorderPixels = u8OrZero r (dtdOffset + 15),
                    verticalBorderLines = u8OrZero r (dtdOffset + 16),
                    isInterlaced = flag b17 128,
                    stereoModeCode = (drop_bit 5 b17) AND 3,
                    syncTypeCode = sync,
                    vSyncPolarity = (if sync = 3 then Some (flag b17 4) else None),
                    vSyncSerrated = (if sync = 3 then None else Some (flag b17 4)),
                    syncAllRGBLines = (if sync = 0 \<or> sync = 1 then Some (flag b17 2) else None),
                    hSyncPolarity = (if sync = 0 \<or> sync = 1 then None else Some (flag b17 2)),
                    twoWayStereo = flag b17 1\<rparr>,
                  reads r warnings1 (parseDtd_reads dtdOffset)))
         | _ \<Rightarrow> (None, warnings1))"

function getDtds_loop ::
  "BlockReader \<Rightarrow> ParsedEdidWarning list \<Rightarrow> nat \<Rightarrow> nat \<Rightarrow> Dtd list
     \<Rightarrow> Dtd list \<times> ParsedEdidWarning list" where
  "getDtds_loop r warnings dtdIndex endOffset dtdArray =
     (if dtdIndex < endOffset
      then (let warnings1 = reads r warnings [dtdIndex, dtdIndex + 1]
            in case (u8 r dtdIndex, u8 r (dtdIndex + 1)) of
                 (Some lo, Some hi) \<Rightarrow>
                   (if lo = 0 \<and> hi = 0 then (dtdArray, warnings1)
                    else (let (dtd, warnings2) = parseDtd r warnings1 dtdIndex
                          in getDtds_loop r warnings2 (dtdIndex + DTD_LENGTH) endOffset
                               (case dtd of Some d \<Rightarrow> dtdArray @ [d] | None \<Rightarrow> dtdArray)))
               | _ \<Rightarrow> (dtdArray, warnings1))
      else (dtdArray, warnings))"
  by pat_completeness auto
termination
  by (relation "measure (\<lambda>(r, warnings, dtdIndex, endOffset, acc). endOffset - dtdIndex)")
     (auto simp: DTD_LENGTH_def)

declare getDtds_loop.simps [simp del]

definition getDtds ::
  "BlockReader \<Rightarrow> ParsedEdidWarning list \<Rightarrow> nat \<Rightarrow> nat \<Rightarrow> Dtd list \<times> ParsedEdidWarning list" where
  "getDtds r warnings startOffset endOffset = getDtds_loop r warnings startOffset endOffset []"

subsection \<open>Native resolution\<close>

text \<open>The diagonal size in inches (a square root) is not carried.\<close>

record NativeResolution =
  activeHorizontalPixels :: nat
  activeVerticalLines :: nat
  physicalWidthInMm :: nat
  physicalHeightInMm :: nat
  nrIsInterlaced :: bool
  refreshRateHz :: jsnum

definition getNativeResolution :: "Dtd list \<Rightarrow> bool \<Rightarrow> NativeResolution option" where
  "getNativeResolution dtds isPreferredTiming =
     (case (if isPreferredTiming then (case dtds of [] \<Rightarrow> None | d # _ \<Rightarrow> Some d) else None) of
        None \<Rightarrow> None
      | Some preferredDtd \<Rightarrow>
          (if horizontalActivePixels preferredDtd = 0
              \<or> verticalActivePixels preferredDtd = 0
              \<or> horizontalDisplaySizeInMm preferredDtd = 0
              \<or> verticalDisplaySizeInMm preferredDtd = 0
              \<or> pixelClockMhz preferredDtd = 0
           then None
           else (let horizontalTotal =
                       horizontalActivePixels preferredDtd + horizontalBlankLineCount preferredDtd;
                     verticalTotal =
                       verticalActivePixels preferredDtd + verticalBlankLineCount preferredDtd
                 in if horizontalTotal = 0 \<or> verticalTotal = 0 then None
                    else Some \<lparr>
                      activeHorizontalPixels = horizontalActivePixels preferredDtd,
                      activeVerticalLines = verticalActivePixels preferredDtd,
                      physicalWidthInMm = horizontalDisplaySizeInMm preferredDtd,
                      physicalHeightInMm = verticalDisplaySizeInMm preferredDtd,
                      nrIsInterlaced = isInterlaced preferredDtd,
                      refreshRateHz =
                        Math_round (Num ((pixelClockMhz preferredDtd * 1000000)
                                           / of_nat (horizontalTotal * verticalTotal)))\<rparr>)))"

section \<open>CTA-861 data blocks\<close>

text \<open>
  The source's data-block objects have optional fields.  A boolean field that the
  decoder either sets or leaves absent, and that consumers only test for truth, is a
  \<open>bool\<close> here (absent is \<open>False\<close>); a field whose presence itself is tested is an
  \<open>option\<close>.  Every block type has a \<open>dataLength\<close> field; the selectors are
  prefixed with the block type because record fields share one name space.
  The vendor-specific and extended-tag records carry the fields that the feature
  aggregation below consults, together with the HDR static metadata and YCbCr 4:2:0
  fields; reads made for the remaining, purely descriptive fields are kept in the
  sequence of logged reads.
\<close>

record ShortAudioDescriptor =
  standardCodecId :: nat
  maxChannelCount :: nat
  sampleRatesBitmask :: nat
  bitDepthBitmask :: "nat option"
  bitRateKbps :: "nat option"
  audioFormatCode :: "nat option"
  codecProfileOrLevel :: "nat option"
  extendedCodecId :: "nat option"

record AudioDataBlock =
  audioDataLength :: nat
  shortAudioDescriptors :: "ShortAudioDescriptor list"

record ShortVideoDescriptor =
  vic :: nat
  isNativeResolution :: bool

record VideoDataBlock =
  videoDataLength :: nat
  shortVideoDescriptors :: "ShortVideoDescriptor list"

record SpeakerDataBlock =
  speakerDataLength :: nat
  layoutBitmask :: nat

record HdmiForumFeatures =
  hf_isScdcPresent :: bool
  hf_isScdcReadRequestCapable :: bool
  hf_supportsCableStatus :: bool
  hf_supportsColorContentBitsPerComponent :: bool
  hf_supportsScrambling340Mcsc :: bool
  hf_supports3DIndependentView :: bool
  hf_supports3DDualView :: bool
  hf_supports3DOSDDisparity :: bool
  hf_supportsFAPAEndExtended :: bool
  hf_supportsQMS :: bool
  hf_supportsMDelta :: bool
  hf_supportsCinemaVRR :: bool
  hf_supportsNegativeMVRR :: bool
  hf_supportsFastVActive :: bool
  hf_supportsALLM :: bool
  hf_supportsFAPAInBlanking :: bool
  hf_supportsVESADSC12a :: bool
  hf_supportsCompressedVideo420 :: bool
  hf_supportsQMSTFRmax :: bool
  hf_supportsQMSTFRmin :: bool
  hf_supportsCompressedVideoAnyBpp :: bool
  hf_supports16bpcCompressedVideo :: bool
  hf_supports12bpcCompressedVideo :: bool
  hf_supports10bpcCompressedVideo :: bool

record VendorDataBlock =
  vendorDataLength :: nat
  ieeeOui :: nat
  supportsGameContentType :: bool
  vendorHdmiForumFeatures :: "HdmiForumFeatures option"
  vendorVrrMinHz :: "nat option"
  vendorVrrMaxHz :: "nat option"
  vendorSupportsDolbyVision :: bool
  vendorError :: "string option"

datatype EotfLabel =
    Traditional_gamma_SDR_luminance_range
  | Traditional_gamma_HDR_luminance_range
  | SMPTE_ST2084_PQ
  | Hybrid_Log_Gamma_HLG

datatype StaticMetaDescLabel = Static_Metadata_Type_1

text \<open>
  \<open>extendedTag\<close> is the numeric extended-tag code: for a known type the \<open>value\<close> of
  the constant object that the source stores, for an unknown type the number itself.
  Code \<open>0x79\<close> is always dispatched to the HDMI Forum SCDB decoder, so comparing the
  stored object with the SCDB constant is the same as comparing the code with \<open>0x79\<close>.
\<close>

record ExtendedTagDataBlock =
  extDataLength :: nat
  extendedTag :: nat
  extError :: "string option"
  supportsQMS :: bool
  supportsVRR :: bool
  supportsCinemaVRR :: bool
  supportsNegativeMRR :: bool
  supportsFVA :: bool
  supportsALLM :: bool
  vendorSpecificVideoOui :: "nat option"
  supportsHDR10 :: bool
  supportsHDR10Plus :: bool
  extSupportsDolbyVision :: bool
  YCbCr420OnlyShortVideoDescriptors :: "ShortVideoDescriptor list option"
  YCbCr420CapableShortVideoDescriptors :: "ShortVideoDescriptor option list option"
  supportedEOTFs :: "EotfLabel list option"
  supportedStaticMetadataDescriptors :: "StaticMetaDescLabel list option"
  desiredContentMaxLuminanceCode :: "nat option"
  desiredContentMaxFrameAverageLuminanceCode :: "nat option"
  desiredContentMinLuminanceCode :: "nat option"
  extHdmiForumFeatures :: "HdmiForumFeatures option"
  extVrrMinHz :: "nat option"
  extVrrMaxHz :: "nat option"

datatype AnyDataBlock =
    AudioBlock AudioDataBlock
  | VideoBlock VideoDataBlock
  | VendorBlock VendorDataBlock
  | SpeakerBlock SpeakerDataBlock
  | ExtendedTagBlock ExtendedTagDataBlock

text \<open>The cross-block context: the last video data block seen, if any.\<close>

type_synonym ExtensionParseContext = "VideoDataBlock option"

definition HDMI_FORUM_SCDB :: nat where
  "HDMI_FORUM_SCDB = 0x79"

fun isVideoBlock :: "AnyDataBlock option \<Rightarrow> bool" where
  "isVideoBlock (Some (VideoBlock _)) = True"
| "isVideoBlock _ = False"

fun isVendorBlock :: "AnyDataBlock option \<Rightarrow> bool" where
  "isVendorBlock (Some (VendorBlock _)) = True"
| "isVendorBlock _ = False"

fun isExtendedTagBlock :: "AnyDataBlock option \<Rightarrow> bool" where
  "isExtendedTagBlock (Some (ExtendedTagBlock _)) = True"
| "isExtendedTagBlock _ = False"

subsection \<open>Audio, video and speaker blocks\<close>

definition parseShortAudioDescriptor :: "nat \<Rightarrow> nat \<Rightarrow> nat \<Rightarrow> ShortAudioDescriptor" where
  "parseShortAudioDescriptor byte0 byte1 byte2 =
     (let format = (drop_bit 3 byte0) AND 15
      in \<lparr>standardCodecId = format,
          maxChannelCount = (byte0 AND 7) + 1,
          sampleRatesBitmask = byte1 AND 127,
          bitDepthBitmask = (if format \<le> 1 then Some (byte2 AND 7) else None),
          bitRateKbps =
            (if \<not> format \<le> 1 \<and> format \<le> 8 then Some ((byte2 AND 255) * 8) else None),
          audioFormatCode =
            (if \<not> format \<le> 8 \<and> format \<le> 13 then Some (byte2 AND 255) else None),
          codecProfileOrLevel =
            (if \<not> format \<le> 13 \<and> format \<le> 14 then Some (byte2 AND 7) else None),
          extendedCodecId =
            (if \<not> format \<le> 14 \<and> format \<le> 15
             then Some ((drop_bit 3 byte2) AND 31) else None)\<rparr>)"

text \<open>
  The source's loop bound is the quotient \<open>blockLength / 3\<close> as a fraction, so the
  loop runs while \<open>3 * shortAudDescIndex < blockLength\<close>.
\<close>

function parseAudioDataBlock_loop ::
  "BlockReader \<Rightarrow> ParsedEdidWarning list \<Rightarrow> nat \<Rightarrow> nat \<Rightarrow> nat \<Rightarrow> ShortAudioDescriptor list
     \<Rightarrow> ShortAudioDescriptor list \<times> ParsedEdidWarning list" where
  "parseAudioDataBlock_loop r warnings blockLength shortAudDescIndex index sads =
     (if 3 * shortAudDescIndex < blockLength
      then parseAudioDataBlock_loop r (reads r warnings [index, index + 1, index + 2])
             blockLength (shortAudDescIndex + 1) (index + 3)
             (sads @ [parseShortAudioDescriptor (u8OrZero r index) (u8OrZero r (index + 1))
                        (u8OrZero r (index + 2))])
      else (sads, warnings))"
  by pat_completeness auto
termination
  by (relation "measure (\<lambda>(r, warnings, blockLength, i, index, sads). blockLength - 3 * i)") auto

declare parseAudioDataBlock_loop.simps [simp del]

definition parseAudioDataBlock ::
  "BlockReader \<Rightarrow> ParsedEdidWarning list \<Rightarrow> nat \<Rightarrow> nat
     \<Rightarrow> AudioDataBlock \<times> ParsedEdidWarning list" where
  "parseAudioDataBlock r warnings startAddress blockLength =
     (let (sads, warnings') = parseAudioDataBlock_loop r warnings blockLength 0 startAddress []
      in (\<lparr>audioDataLength = blockLength, shortAudioDescriptors = sads\<rparr>, warnings'))"

definition parseShortVideoDescriptor :: "nat \<Rightarrow> ShortVideoDescriptor" where
  "parseShortVideoDescriptor dataByte =
     (if (dataByte AND 64) > 0
      then \<lparr>vic = dataByte AND 255, isNativeResolution = False\<rparr>
      else \<lparr>vic = dataByte AND 63, isNativeResolution = flag dataByte 128\<rparr>)"

function parseVideoDataBlock_loop ::
  "BlockReader \<Rightarrow> ParsedEdidWarning list \<Rightarrow> nat \<Rightarrow> nat \<Rightarrow> nat \<Rightarrow> ShortVideoDescriptor list
     \<Rightarrow> ShortVideoDescriptor list \<times> ParsedEdidWarning list" where
  "parseVideoDataBlock_loop r warnings startAddress blockLength index svds =
     (if index < blockLength
      then (let warnings1 = reads r warnings [startAddress + index]
            in case u8 r (startAddress + index) of
                 None \<Rightarrow> (svds, warnings1)
               | Some dataByte \<Rightarrow>
                   parseVideoDataBlock_loop r warnings1 startAddress blockLength (index + 1)
                     (svds @ [parseShortVideoDescriptor dataByte]))
      else (svds, warnings))"
  by pat_completeness auto
termination
  by (relation "measure (\<lambda>(r, warnings, startAddress, blockLength, index, svds). blockLength - index)")
     auto

declare parseVideoDataBlock_loop.simps [simp del]

text \<open>
  \<open>parseVideoDataBlock\<close> also stores the block as the context's last video block;
  the new context is the second component of the result.
\<close>

definition parseVideoDataBlock ::
  "BlockReader \<Rightarrow> ParsedEdidWarning list \<Rightarrow> nat \<Rightarrow> nat
     \<Rightarrow> VideoDataBlock \<times> ExtensionParseContext \<times> ParsedEdidWarning list" where
  "parseVideoDataBlock r warnings startAddress blockLength =
     (let (svds, warnings') = parseVideoDataBlock_loop r warnings startAddress blockLength 0 [];
          videoBlock = \<lparr>videoDataLength = blockLength, shortVideoDescriptors = svds\<rparr>
      in (videoBlock, Some videoBlock, warnings'))"

definition parseSpeakerDataBlock ::
  "BlockReader \<Rightarrow> ParsedEdidWarning list \<Rightarrow> nat \<Rightarrow> nat
     \<Rightarrow> SpeakerDataBlock \<times> ParsedEdidWarning list" where
  "parseSpeakerDataBlock r warnings startAddress blockLength =
     (\<lparr>speakerDataLength = blockLength,
       layoutBitmask =
         (push_bit 16 (u8OrZero r (startAddress + 2)))
           OR (push_bit 8 (u8OrZero r (startAddress + 1)))
           OR u8OrZero r startAddress\<rparr>,
      reads r warnings [startAddress + 2, startAddress + 1, startAddress])"

subsection \<open>Vendor-specific data blocks\<close>

definition IEEE_OUI_HDMI14 :: nat where "IEEE_OUI_HDMI14 = 0x000c03"
definition IEEE_OUI_HDMI_FORUM :: nat where "IEEE_OUI_HDMI_FORUM = 0xc45dd8"
definition IEEE_OUI_HDR10_PLUS :: nat where "IEEE_OUI_HDR10_PLUS = 0x90848b"
definition IEEE_OUI_DOLBY_VISION :: nat where "IEEE_OUI_DOLBY_VISION = 0x00d046"

text \<open>
  The HDMI Forum decoders copy the payload into a local array \<open>data\<close> and read it
  through \<open>dataByte\<close>, which gives 0 beyond the declared length.  A byte missing
  from the buffer is stored as NaN, which every bit operation treats as 0.
\<close>

definition dataByte :: "BlockReader \<Rightarrow> nat \<Rightarrow> nat \<Rightarrow> nat \<Rightarrow> nat" where
  "dataByte r startAddress blockLength i =
     (if i < blockLength then u8OrZero r (startAddress + i) else 0)"

definition hdmiForumFeatures_of :: "nat \<Rightarrow> nat \<Rightarrow> nat \<Rightarrow> HdmiForumFeatures" where
  "hdmiForumFeatures_of a b c =
     \<lparr>hf_isScdcPresent = flag a 128,
      hf_isScdcReadRequestCapable = flag a 64,
      hf_supportsCableStatus = flag a 32,
      hf_supportsColorContentBitsPerComponent = flag a 16,
      hf_supportsScrambling340Mcsc = flag a 8,
      hf_supports3DIndependentView = flag a 4,
      hf_supports3DDualView = flag a 2,
      hf_supports3DOSDDisparity = flag a 1,
      hf_supportsFAPAEndExtended = flag b 128,
      hf_supportsQMS = flag b 64,
      hf_supportsMDelta = flag b 32,
      hf_supportsCinemaVRR = flag b 16,
      hf_supportsNegativeMVRR = flag b 8,
      hf_supportsFastVActive = flag b 4,
      hf_supportsALLM = flag b 2,
      hf_supportsFAPAInBlanking = flag b 1,
      hf_supportsVESADSC12a = flag c 128,
      hf_supportsCompressedVideo420 = flag c 64,
      hf_supportsQMSTFRmax = flag c 32,
      hf_supportsQMSTFRmin = flag c 16,
      hf_supportsCompressedVideoAnyBpp = flag c 8,
      hf_supports16bpcCompressedVideo = flag c 4,
      hf_supports12bpcCompressedVideo = flag c 2,
      hf_supports10bpcCompressedVideo = flag c 1\<rparr>"

definition positive :: "nat \<Rightarrow> nat option" where
  "positive n = (if n > 0 then Some n else None)"

definition parseVendorDataBlockHDMI14 ::
  "BlockReader \<Rightarrow> ParsedEdidWarning list \<Rightarrow> nat \<Rightarrow> nat \<Rightarrow> VendorDataBlock
     \<Rightarrow> VendorDataBlock \<times> ParsedEdidWarning list" where
  "parseVendorDataBlockHDMI14 r warnings startAddress blockLength vendorBlock =
     (let vsdbAddress = startAddress - 1;
          latencyFlags = u8OrZero r (vsdbAddress + 8);
          areProgressiveLatencyFieldsPresent = (blockLength \<ge> 8 \<and> flag latencyFlags 128);
          areInterlacedLatencyFieldsPresent =
            (areProgressiveLatencyFieldsPresent \<and> flag latencyFlags 64)
      in (vendorBlock\<lparr>supportsGameContentType :=
                          (blockLength \<ge> 8 \<and> flag latencyFlags 32 \<and> flag latencyFlags 8)\<rparr>,
          reads r warnings
            ([vsdbAddress + 4, vsdbAddress + 5]
             @ (if blockLength \<ge> 6 then replicate 6 (vsdbAddress + 6) else [])
             @ (if blockLength \<ge> 7 then [vsdbAddress + 7] else [])
             @ (if blockLength \<ge> 8 then [vsdbAddress + 8] else [])
             @ (if areProgressiveLatencyFieldsPresent \<and> blockLength \<ge> 10
                then [vsdbAddress + 9, vsdbAddress + 10] else [])
             @ (if areInterlacedLatencyFieldsPresent \<and> blockLength \<ge> 12
                then [vsdbAddress + 11, vsdbAddress + 12] else []))))"

definition parseVendorDataBlockHDMI20 ::
  "BlockReader \<Rightarrow> ParsedEdidWarning list \<Rightarrow> nat \<Rightarrow> nat \<Rightarrow> VendorDataBlock
     \<Rightarrow> VendorDataBlock \<times> ParsedEdidWarning list" where
  "parseVendorDataBlockHDMI20 r warnings startAddress blockLength vendorBlock =
     (let vsdbAddress = startAddress - 1
      in (vendorBlock,
          reads r warnings
            ([vsdbAddress + 4, vsdbAddress + 5]
             @ replicate 6 (vsdbAddress + 6) @ replicate 3 (vsdbAddress + 7))))"

definition parseVendorDataBlockHDMIForum ::
  "BlockReader \<Rightarrow> ParsedEdidWarning list \<Rightarrow> nat \<Rightarrow> nat \<Rightarrow> VendorDataBlock
     \<Rightarrow> VendorDataBlock \<times> ParsedEdidWarning list" where
  "parseVendorDataBlockHDMIForum r warnings startAddress blockLength vendorBlock =
     (if blockLength < 8
      then (vendorBlock\<lparr>vendorHdmiForumFeatures := Some (hdmiForumFeatures_of 0 0 0),
                         vendorError := Some ''HDMI Forum VSDB too short''\<rparr>, warnings)
      else (let d = dataByte r startAddress blockLength
            in (vendorBlock\<lparr>
                  vendorHdmiForumFeatures :=
                    Some (hdmiForumFeatures_of (d 5) (d 7) (if blockLength > 10 then d 10 else 0)),
                  vendorVrrMinHz := (if blockLength > 8 then positive (d 8 AND 63) else None),
                  vendorVrrMaxHz :=
                    (if blockLength > 8
                     then positive ((push_bit 2 (d 8 AND 192)) OR d 9) else None)\<rparr>,
                reads r warnings (map (\<lambda>i. startAddress + i) [0..<blockLength]))))"

definition parseVendorDataBlock ::
  "BlockReader \<Rightarrow> ParsedEdidWarning list \<Rightarrow> nat \<Rightarrow> nat
     \<Rightarrow> VendorDataBlock \<times> ParsedEdidWarning list" where
  "parseVendorDataBlock r warnings startAddress blockLength =
     (let vsdbAddress = startAddress - 1;
          oui = (push_bit 16 (u8OrZero r (vsdbAddress + 3)))
                  OR (push_bit 8 (u8OrZero r (vsdbAddress + 2)))
                  OR u8OrZero r (vsdbAddress + 1);
          warnings1 = reads r warnings [vsdbAddress + 3, vsdbAddress + 2, vsdbAddress + 1];
          vendorBlock = \<lparr>vendorDataLength = blockLength, ieeeOui = oui,
                         supportsGameContentType = False, vendorHdmiForumFeatures = None,
                         vendorVrrMinHz = None, vendorVrrMaxHz = None,
                         vendorSupportsDolbyVision = False, vendorError = None\<rparr>
      in if oui = IEEE_OUI_DOLBY_VISION
         then (vendorBlock\<lparr>vendorSupportsDolbyVision := True\<rparr>, warnings1)
         else if oui = IEEE_OUI_HDMI14
         then parseVendorDataBlockHDMI14 r warnings1 startAddress blockLength vendorBlock
         else if oui = IEEE_OUI_HDMI_FORUM
         then (if blockLength \<ge> 8
               then parseVendorDataBlockHDMIForum r warnings1 startAddress blockLength vendorBlock
               else parseVendorDataBlockHDMI20 r warnings1 startAddress blockLength vendorBlock)
         else (vendorBlock, warnings1))"

subsection \<open>Extended-tag data blocks\<close>

definition emptyExtendedTagDataBlock :: "nat \<Rightarrow> ExtendedTagDataBlock" where
  "emptyExtendedTagDataBlock blockLength =
     \<lparr>extDataLength = blockLength, extendedTag = 0, extError = None,
      supportsQMS = False, supportsVRR = False, supportsCinemaVRR = False,
      supportsNegativeMRR = False, supportsFVA = False, supportsALLM = False,
      vendorSpecificVideoOui = None,
      supportsHDR10 = False, supportsHDR10Plus = False, extSupportsDolbyVision = False,
      YCbCr420OnlyShortVideoDescriptors = None,
      YCbCr420CapableShortVideoDescriptors = None,
      supportedEOTFs = None, supportedStaticMetadataDescriptors = None,
      desiredContentMaxLuminanceCode = None,
      desiredContentMaxFrameAverageLuminanceCode = None,
      desiredContentMinLuminanceCode = None,
      extHdmiForumFeatures = None, extVrrMinHz = None, extVrrMaxHz = None\<rparr>"

definition parseVendorSpecificVideoDataBlock ::
  "BlockReader \<Rightarrow> ParsedEdidWarning list \<Rightarrow> nat \<Rightarrow> nat \<Rightarrow> ExtendedTagDataBlock
     \<Rightarrow> ExtendedTagDataBlock \<times> ParsedEdidWarning list" where
  "parseVendorSpecificVideoDataBlock r warnings startAddress blockLength extendedTagBlock =
     (let blk = extendedTagBlock\<lparr>extendedTag := 1\<rparr>
      in if blockLength < 4
         then (blk\<lparr>extError := Some ''Vendor-Specific Video Data Block too short''\<rparr>, warnings)
         else (let oui = (push_bit 16 (u8OrZero r (startAddress + 3)))
                           OR (push_bit 8 (u8OrZero r (startAddress + 2)))
                           OR u8OrZero r (startAddress + 1)
               in (blk\<lparr>vendorSpecificVideoOui := Some oui,
                       supportsHDR10Plus := (oui = IEEE_OUI_HDR10_PLUS),
                       extSupportsDolbyVision :=
                         (oui \<noteq> IEEE_OUI_HDR10_PLUS \<and> oui = IEEE_OUI_DOLBY_VISION)\<rparr>,
                   reads r warnings [startAddress + 3, startAddress + 2, startAddress + 1])))"

definition parseVideoCapabilityDataBlock ::
  "BlockReader \<Rightarrow> ParsedEdidWarning list \<Rightarrow> nat \<Rightarrow> nat \<Rightarrow> ExtendedTagDataBlock
     \<Rightarrow> ExtendedTagDataBlock \<times> ParsedEdidWarning list" where
  "parseVideoCapabilityDataBlock r warnings startAddress blockLength extendedTagBlock =
     (let b2 = u8OrZero r (startAddress + 2)
      in (extendedTagBlock\<lparr>
            extendedTag := 0,
            supportsQMS := (blockLength > 2 \<and> flag b2 128),
            supportsVRR := (blockLength > 2 \<and> flag b2 64),
            supportsCinemaVRR := (blockLength > 2 \<and> flag b2 32),
            supportsNegativeMRR := (blockLength > 2 \<and> flag b2 16),
            supportsFVA := (blockLength > 2 \<and> flag b2 8),
            supportsALLM := (blockLength > 2 \<and> flag b2 4)\<rparr>,
          reads r warnings
            (replicate 5 (startAddress + 1)
             @ (if blockLength > 2 then replicate 6 (startAddress + 2) else []))))"

definition parseColorimetryDataBlock ::
  "BlockReader \<Rightarrow> ParsedEdidWarning list \<Rightarrow> nat \<Rightarrow> nat \<Rightarrow> ExtendedTagDataBlock
     \<Rightarrow> ExtendedTagDataBlock \<times> ParsedEdidWarning list" where
  "parseColorimetryDataBlock r warnings startAddress blockLength extendedTagBlock =
     (extendedTagBlock\<lparr>extendedTag := 5\<rparr>,
      reads r warnings
        (replicate 8 (startAddress + 1) @ replicate 4 (startAddress + 2)
         @ (if blockLength > 3 then replicate 4 (startAddress + 3) else [])))"

text \<open>
  The YCbCr 4:2:0 video loop runs while \<open>svdIndex < blockLength - 1\<close> on numbers,
  that is while \<open>svdIndex + 1 < blockLength\<close>.
\<close>

function parseYCbCr420VideoDataBlock_loop ::
  "BlockReader \<Rightarrow> ParsedEdidWarning list \<Rightarrow> nat \<Rightarrow> nat \<Rightarrow> nat \<Rightarrow> ShortVideoDescriptor list
     \<Rightarrow> ShortVideoDescriptor list \<times> ParsedEdidWarning list" where
  "parseYCbCr420VideoDataBlock_loop r warnings startAddress blockLength svdIndex svds =
     (if svdIndex + 1 < blockLength
      then (let warnings1 = reads r warnings [startAddress + 1 + svdIndex]
            in case u8 r (startAddress + 1 + svdIndex) of
                 None \<Rightarrow> (svds, warnings1)
               | Some b \<Rightarrow>
                   parseYCbCr420VideoDataBlock_loop r warnings1 startAddress blockLength
                     (svdIndex + 1) (svds @ [parseShortVideoDescriptor b]))
      else (svds, warnings))"
  by pat_completeness auto
termination
  by (relation "measure (\<lambda>(r, warnings, startAddress, blockLength, i, svds). blockLength - i)") auto

declare parseYCbCr420VideoDataBlock_loop.simps [simp del]

definition parseYCbCr420VideoDataBlock ::
  "BlockReader \<Rightarrow> ParsedEdidWarning list \<Rightarrow> nat \<Rightarrow> nat \<Rightarrow> ExtendedTagDataBlock
     \<Rightarrow> ExtendedTagDataBlock \<times> ParsedEdidWarning list" where
  "parseYCbCr420VideoDataBlock r warnings startAddress blockLength extendedTagBlock =
     (let (svds, warnings') =
            parseYCbCr420VideoDataBlock_loop r warnings startAddress blockLength 0 []
      in (extendedTagBlock\<lparr>extendedTag := 14,
                             YCbCr420OnlyShortVideoDescriptors := Some svds\<rparr>, warnings'))"

definition nth_opt :: "'a list \<Rightarrow> nat \<Rightarrow> 'a option" where
  "nth_opt xs i = (if i < length xs then Some (xs ! i) else None)"

text \<open>
  One capability byte: bit \<open>j\<close> (least significant first) selects the video
  descriptor with index \<open>svdIndex + j\<close>, which may not exist.
\<close>

definition capabilityByte ::
  "ShortVideoDescriptor list \<Rightarrow> nat \<Rightarrow> nat \<Rightarrow> ShortVideoDescriptor option list" where
  "capabilityByte svds dataByte' svdIndex =
     map (\<lambda>j. nth_opt svds (svdIndex + j)) (filter (\<lambda>j. flag dataByte' (2 ^ j)) [0..<8])"

function parseYCbCr420CapabilityMapDataBlock_loop ::
  "BlockReader \<Rightarrow> ParsedEdidWarning list \<Rightarrow> nat \<Rightarrow> nat \<Rightarrow> ShortVideoDescriptor list \<Rightarrow> nat
     \<Rightarrow> nat \<Rightarrow> ShortVideoDescriptor option list
     \<Rightarrow> ShortVideoDescriptor option list \<times> ParsedEdidWarning list" where
  "parseYCbCr420CapabilityMapDataBlock_loop r warnings startAddress blockLength svds
       fieldAddress svdIndex acc =
     (if fieldAddress < blockLength
      then (let warnings1 = reads r warnings [startAddress + fieldAddress]
            in case u8 r (startAddress + fieldAddress) of
                 None \<Rightarrow> (acc, warnings1)
               | Some b \<Rightarrow>
                   parseYCbCr420CapabilityMapDataBlock_loop r warnings1 startAddress blockLength
                     svds (fieldAddress + 1) (svdIndex + 8) (acc @ capabilityByte svds b svdIndex))
      else (acc, warnings))"
  by pat_completeness auto
termination
  by (relation "measure (\<lambda>(r, warnings, startAddress, blockLength, svds, fa, i, acc).
                           blockLength - fa)") auto

declare parseYCbCr420CapabilityMapDataBlock_loop.simps [simp del]

definition parseYCbCr420CapabilityMapDataBlock ::
  "BlockReader \<Rightarrow> ParsedEdidWarning list \<Rightarrow> nat \<Rightarrow> nat \<Rightarrow> ExtendedTagDataBlock
     \<Rightarrow> ExtensionParseContext \<Rightarrow> ExtendedTagDataBlock \<times> ParsedEdidWarning list" where
  "parseYCbCr420CapabilityMapDataBlock r warnings startAddress blockLength extendedTagBlock
       context =
     (let blk = extendedTagBlock\<lparr>extendedTag := 15\<rparr>
      in case context of
           None \<Rightarrow> (blk, warnings)
         | Some videoBlock \<Rightarrow>
             (let (acc, warnings') =
                    parseYCbCr420CapabilityMapDataBlock_loop r warnings startAddress blockLength
                      (shortVideoDescriptors videoBlock) 1 0 []
              in (blk\<lparr>YCbCr420CapableShortVideoDescriptors := Some acc\<rparr>, warnings')))"

definition EOTF_LABELS :: "EotfLabel list" where
  "EOTF_LABELS =
     [Traditional_gamma_SDR_luminance_range, Traditional_gamma_HDR_luminance_range,
      SMPTE_ST2084_PQ, Hybrid_Log_Gamma_HLG]"

definition STATIC_METADATA_DESCRIPTORS :: "StaticMetaDescLabel list" where
  "STATIC_METADATA_DESCRIPTORS = [Static_Metadata_Type_1]"

text \<open>
  \<open>labelsOf labels b\<close> is the source's loop over the label table: the labels whose
  index \<open>i\<close> has bit \<open>1 << i\<close> set in \<open>b\<close>, in table order.
\<close>

definition labelsOf :: "'a list \<Rightarrow> nat \<Rightarrow> 'a list" where
  "labelsOf labels b =
     map (\<lambda>i. labels ! i) (filter (\<lambda>i. flag b (2 ^ i)) [0..<length labels])"

definition parseHDRStaticMetadataDataBlock ::
  "BlockReader \<Rightarrow> ParsedEdidWarning list \<Rightarrow> nat \<Rightarrow> nat \<Rightarrow> ExtendedTagDataBlock
     \<Rightarrow> ExtendedTagDataBlock \<times> ParsedEdidWarning list" where
  "parseHDRStaticMetadataDataBlock r warnings startAddress blockLength extendedTagBlock =
     (let blk = extendedTagBlock\<lparr>extendedTag := 6\<rparr>
      in if blockLength < 2
         then (blk\<lparr>extError := Some ''Empty Data Block''\<rparr>, warnings)
         else (let eotfs = labelsOf EOTF_LABELS (u8OrZero r (startAddress + 1));
                   descs = (if blockLength > 2
                            then labelsOf STATIC_METADATA_DESCRIPTORS
                                   (u8OrZero r (startAddress + 2))
                            else []);
                   hasPqEotf = (SMPTE_ST2084_PQ \<in> set eotfs);
                   hasStaticType1 = (Static_Metadata_Type_1 \<in> set descs)
               in (blk\<lparr>
                     supportedEOTFs := Some eotfs,
                     supportedStaticMetadataDescriptors := Some descs,
                     desiredContentMaxLuminanceCode :=
                       (if blockLength \<ge> 4 then u8 r (startAddress + 3) else None),
                     desiredContentMaxFrameAverageLuminanceCode :=
                       (if blockLength \<ge> 4 then u8 r (startAddress + 4) else None),
                     desiredContentMinLuminanceCode :=
                       (if blockLength \<ge> 5 then u8 r (startAddress + 5) else None),
                     supportsHDR10 := (hasPqEotf \<and> hasStaticType1)\<rparr>,
                   reads r warnings
                     ([startAddress + 1]
                      @ (if blockLength > 2 then [startAddress + 2] else [])
                      @ (if blockLength \<ge> 4 then [startAddress + 3, startAddress + 4] else [])
                      @ (if blockLength \<ge> 5 then [startAddress + 5] else [])))))"

definition parseHDRDynamicMetadataDataBlock ::
  "BlockReader \<Rightarrow> ParsedEdidWarning list \<Rightarrow> nat \<Rightarrow> nat \<Rightarrow> ExtendedTagDataBlock
     \<Rightarrow> ExtendedTagDataBlock \<times> ParsedEdidWarning list" where
  "parseHDRDynamicMetadataDataBlock r warnings startAddress blockLength extendedTagBlock =
     (let blk = extendedTagBlock\<lparr>extendedTag := 7\<rparr>
      in if blockLength < 3
         then (blk\<lparr>extError := Some ''Data Block too short''\<rparr>, warnings)
         else (blk, reads r warnings [startAddress + 1, startAddress + 2]))"

definition parseVideoFormatPreferenceDataBlock ::
  "BlockReader \<Rightarrow> ParsedEdidWarning list \<Rightarrow> nat \<Rightarrow> nat \<Rightarrow> ExtendedTagDataBlock
     \<Rightarrow> ExtendedTagDataBlock \<times> ParsedEdidWarning list" where
  "parseVideoFormatPreferenceDataBlock r warnings startAddress blockLength extendedTagBlock =
     (let blk = extendedTagBlock\<lparr>extendedTag := 13\<rparr>
      in if blockLength < 1
         then (blk\<lparr>extError := Some ''Empty Data Block''\<rparr>, warnings)
         else (blk, reads r warnings (map (\<lambda>i. startAddress + i) [1..<blockLength])))"

definition parseRoomConfigurationDataBlock ::
  "BlockReader \<Rightarrow> ParsedEdidWarning list \<Rightarrow> nat \<Rightarrow> nat \<Rightarrow> ExtendedTagDataBlock
     \<Rightarrow> ExtendedTagDataBlock \<times> ParsedEdidWarning list" where
  "parseRoomConfigurationDataBlock r warnings startAddress blockLength extendedTagBlock =
     (let blk = extendedTagBlock\<lparr>extendedTag := 19\<rparr>
      in if blockLength < 1
         then (blk\<lparr>extError := Some ''Empty Data Block''\<rparr>, warnings)
         else (blk, reads r warnings [startAddress + 1]))"

definition parseHDMIForumSCDB ::
  "BlockReader \<Rightarrow> ParsedEdidWarning list \<Rightarrow> nat \<Rightarrow> nat \<Rightarrow> ExtendedTagDataBlock
     \<Rightarrow> ExtendedTagDataBlock \<times> ParsedEdidWarning list" where
  "parseHDMIForumSCDB r warnings startAddress blockLength extendedTagBlock =
     (let blk = extendedTagBlock\<lparr>extendedTag := HDMI_FORUM_SCDB\<rparr>
      in if blockLength < 3
         then (blk\<lparr>extError := Some ''HDMI Forum SCDB too short''\<rparr>, warnings)
         else (let d = dataByte r startAddress blockLength
               in (blk\<lparr>
                     extHdmiForumFeatures :=
                       Some (hdmiForumFeatures_of
                               (if blockLength > 3 then d 3 else 0)
                               (if blockLength > 4 then d 5 else 0)
                               (if blockLength > 8 then d 8 else 0)),
                     extVrrMinHz := (if blockLength > 6 then positive (d 6 AND 63) else None),
                     extVrrMaxHz :=
                       (if blockLength > 6
                        then positive ((push_bit 2 (d 6 AND 192)) OR d 7) else None)\<rparr>,
                   reads r warnings (map (\<lambda>i. startAddress + i) [0..<blockLength]))))"

definition parseExtendedTagDataBlock ::
  "BlockReader \<Rightarrow> ParsedEdidWarning list \<Rightarrow> nat \<Rightarrow> nat \<Rightarrow> ExtensionParseContext
     \<Rightarrow> ExtendedTagDataBlock \<times> ParsedEdidWarning list" where
  "parseExtendedTagDataBlock r warnings startAddress blockLength context =
     (let extendedTagBlock = emptyExtendedTagDataBlock blockLength;
          extendedBlockTagCode = u8OrZero r startAddress;
          warnings1 = reads r warnings [startAddress]
      in if extendedBlockTagCode = 0
         then parseVideoCapabilityDataBlock r warnings1 startAddress blockLength extendedTagBlock
         else if extendedBlockTagCode = 1
         then parseVendorSpecificVideoDataBlock r warnings1 startAddress blockLength
                extendedTagBlock
         else if extendedBlockTagCode = 5
         then parseColorimetryDataBlock r warnings1 startAddress blockLength extendedTagBlock
         else if extendedBlockTagCode = 14
         then parseYCbCr420VideoDataBlock r warnings1 startAddress blockLength extendedTagBlock
         else if extendedBlockTagCode = 15
         then parseYCbCr420CapabilityMapDataBlock r warnings1 startAddress blockLength
                extendedTagBlock context
         else if extendedBlockTagCode = 6
         then parseHDRStaticMetadataDataBlock r warnings1 startAddress blockLength
                extendedTagBlock
         else if extendedBlockTagCode = 7
         then parseHDRDynamicMetadataDataBlock r warnings1 startAddress blockLength
                extendedTagBlock
         else if extendedBlockTagCode = 13
         then parseVideoFormatPreferenceDataBlock r warnings1 startAddress blockLength
                extendedTagBlock
         else if extendedBlockTagCode = 19
         then parseRoomConfigurationDataBlock r warnings1 startAddress blockLength
                extendedTagBlock
         else if extendedBlockTagCode = HDMI_FORUM_SCDB
         then parseHDMIForumSCDB r warnings1 startAddress blockLength extendedTagBlock
         else (extendedTagBlock\<lparr>extendedTag := extendedBlockTagCode\<rparr>, warnings1))"

subsection \<open>The data block collection of a CTA-861 extension\<close>

text \<open>
  The collection is an array of data blocks in which the slot of an unknown tag, or
  of a second or later video block, holds \<open>undefined\<close> (\<open>None\<close>).  The source keeps
  a reference \<open>primaryVideoBlock\<close> to the first video block, which sits in the
  collection, and merges later video blocks into that object.  Here the reference
  is the slot number together with the block's current value, and a merge rewrites
  the slot.  The context's last video block is set to the merged block at each merge,
  as the source does.
\<close>

definition mergeVideoBlocks :: "VideoDataBlock \<Rightarrow> VideoDataBlock \<Rightarrow> VideoDataBlock" where
  "mergeVideoBlocks primaryVideoBlock parsedVideoBlock =
     \<lparr>videoDataLength = videoDataLength primaryVideoBlock + videoDataLength parsedVideoBlock,
      shortVideoDescriptors =
        shortVideoDescriptors primaryVideoBlock @ shortVideoDescriptors parsedVideoBlock\<rparr>"

record DataBlockScan =
  scanCollection :: "AnyDataBlock option list"
  primaryVideoBlock :: "(nat \<times> VideoDataBlock) option"
  scanContext :: ExtensionParseContext
  scanWarnings :: "ParsedEdidWarning list"

definition parseDataBlock ::
  "BlockReader \<Rightarrow> nat \<Rightarrow> nat \<Rightarrow> nat \<Rightarrow> DataBlockScan \<Rightarrow> DataBlockScan" where
  "parseDataBlock r index blockTagCode blockLength st =
     (if blockTagCode = 1
      then (let (b, w) = parseAudioDataBlock r (scanWarnings st) (index + 1) blockLength
            in st\<lparr>scanCollection := scanCollection st @ [Some (AudioBlock b)],
                   scanWarnings := w\<rparr>)
      else if blockTagCode = 2
      then (let (parsedVideoBlock, c, w) =
                  parseVideoDataBlock r (scanWarnings st) (index + 1) blockLength
            in case primaryVideoBlock st of
                 None \<Rightarrow>
                   st\<lparr>scanCollection :=
                          scanCollection st @ [Some (VideoBlock parsedVideoBlock)],
                      primaryVideoBlock :=
                          Some (length (scanCollection st), parsedVideoBlock),
                      scanContext := c, scanWarnings := w\<rparr>
               | Some (slot, primary) \<Rightarrow>
                   (let merged = mergeVideoBlocks primary parsedVideoBlock
                    in st\<lparr>scanCollection :=
                              (scanCollection st)[slot := Some (VideoBlock merged)] @ [None],
                           primaryVideoBlock := Some (slot, merged),
                           scanContext := Some merged, scanWarnings := w\<rparr>))
      else if blockTagCode = 3
      then (let (b, w) = parseVendorDataBlock r (scanWarnings st) (index + 1) blockLength
            in st\<lparr>scanCollection := scanCollection st @ [Some (VendorBlock b)],
                   scanWarnings := w\<rparr>)
      else if blockTagCode = 4
      then (let (b, w) = parseSpeakerDataBlock r (scanWarnings st) (index + 1) blockLength
            in st\<lparr>scanCollection := scanCollection st @ [Some (SpeakerBlock b)],
                   scanWarnings := w\<rparr>)
      else if blockTagCode = 7
      then (let (b, w) = parseExtendedTagDataBlock r (scanWarnings st) (index + 1) blockLength
                           (scanContext st)
            in st\<lparr>scanCollection := scanCollection st @ [Some (ExtendedTagBlock b)],
                   scanWarnings := w\<rparr>)
      else st\<lparr>scanCollection := scanCollection st @ [None],
              scanWarnings := warn (scanWarnings st) unknown_data_block
                                (Some (rdBlockIndex r)) (Some index)\<rparr>)"

function parseDataBlockCollection_loop ::
  "BlockReader \<Rightarrow> nat \<Rightarrow> nat \<Rightarrow> DataBlockScan \<Rightarrow> DataBlockScan" where
  "parseDataBlockCollection_loop r endAddress index st =
     (if index < endAddress
      then (let st1 = st\<lparr>scanWarnings := reads r (scanWarnings st) [index]\<rparr>
            in case u8 r index of
                 None \<Rightarrow> st1
               | Some headerByte \<Rightarrow>
                   (let blockTagCode = (drop_bit 5 headerByte) AND 7;
                        blockLength = headerByte AND 31
                    in parseDataBlockCollection_loop r endAddress (index + blockLength + 1)
                         (parseDataBlock r index blockTagCode blockLength st1)))
      else st)"
  by pat_completeness auto
termination
  by (relation "measure (\<lambda>(r, endAddress, index, st). endAddress - index)") auto

declare parseDataBlockCollection_loop.simps [simp del]

fun isScdbBlock :: "AnyDataBlock option \<Rightarrow> bool" where
  "isScdbBlock (Some (ExtendedTagBlock b)) = (extendedTag b = HDMI_FORUM_SCDB)"
| "isScdbBlock _ = False"

function recoverScdb_loop ::
  "BlockReader \<Rightarrow> nat \<Rightarrow> nat \<Rightarrow> DataBlockScan \<Rightarrow> DataBlockScan" where
  "recoverScdb_loop r endAddress scanIndex st =
     (if scanIndex < endAddress
      then (let st1 = st\<lparr>scanWarnings := reads r (scanWarnings st) [scanIndex]\<rparr>
            in case u8 r scanIndex of
                 None \<Rightarrow> st1
               | Some headerByte \<Rightarrow>
                   (let blockTagCode = (drop_bit 5 headerByte) AND 7;
                        blockLength = headerByte AND 31;
                        dataStart = scanIndex + 1;
                        dataEnd = dataStart + blockLength
                    in if blockTagCode \<noteq> 7 then recoverScdb_loop r endAddress (scanIndex + 1) st1
                       else if blockLength = 0
                       then recoverScdb_loop r endAddress (scanIndex + 1) st1
                       else if dataEnd > endAddress
                       then recoverScdb_loop r endAddress (scanIndex + 1) st1
                       else (let st2 = st1\<lparr>scanWarnings :=
                                              reads r (scanWarnings st1) [dataStart]\<rparr>
                             in if u8OrZero r dataStart \<noteq> HDMI_FORUM_SCDB
                                then recoverScdb_loop r endAddress (scanIndex + 1) st2
                                else (let (scdbBlock, w) =
                                            parseExtendedTagDataBlock r (scanWarnings st2)
                                              dataStart blockLength (scanContext st2)
                                      in st2\<lparr>scanCollection :=
                                                scanCollection st2
                                                  @ [Some (ExtendedTagBlock scdbBlock)],
                                              scanWarnings := w\<rparr>))))
      else st)"
  by pat_completeness auto
termination
  by (relation "measure (\<lambda>(r, endAddress, scanIndex, st). endAddress - scanIndex)") auto

declare recoverScdb_loop.simps [simp del]

definition START_DATA_BLOCK :: nat where
  "START_DATA_BLOCK = 4"

definition primaryScan ::
  "BlockReader \<Rightarrow> nat \<Rightarrow> ExtensionParseContext \<Rightarrow> ParsedEdidWarning list \<Rightarrow> DataBlockScan" where
  "primaryScan r endAddress context warnings =
     parseDataBlockCollection_loop r endAddress START_DATA_BLOCK
       \<lparr>scanCollection = [], primaryVideoBlock = None,
        scanContext = context, scanWarnings = warnings\<rparr>"

text \<open>
  \<open>parseDataBlockCollection\<close> takes the extension's \<open>dtdStart\<close>, the only field of
  the extension block that it uses, and returns the collection, the context and the
  warnings.
\<close>

definition parseDataBlockCollection ::
  "BlockReader \<Rightarrow> nat \<Rightarrow> ExtensionParseContext \<Rightarrow> ParsedEdidWarning list
     \<Rightarrow> AnyDataBlock option list \<times> ExtensionParseContext \<times> ParsedEdidWarning list" where
  "parseDataBlockCollection r dtdStart context warnings =
     (if dtdStart < START_DATA_BLOCK
      then ([], context,
            warn warnings parse_error (Some (rdBlockIndex r)) (Some START_DATA_BLOCK))
      else (let endAddress = dtdStart;
                st = primaryScan r endAddress context warnings;
                st' = (if \<not> list_ex isScdbBlock (scanCollection st)
                       then recoverScdb_loop r endAddress START_DATA_BLOCK st
                       else st)
            in (scanCollection st', scanContext st', scanWarnings st')))"

section \<open>Extension blocks\<close>

datatype ExtensionType = cta_861 | displayid | unknown

record ParsedExtensionBlock =
  blockNumber :: nat
  extTagByte :: nat
  revisionNumber :: nat
  dtdStart :: nat
  numDtds :: nat
  supportsUnderscan :: bool
  supportsBasicAudio :: bool
  supportsYCbCr444 :: bool
  supportsYCbCr422 :: bool
  dataBlockCollection :: "AnyDataBlock option list option"
  extDtds :: "Dtd list"
  extChecksum :: nat
  extIsChecksumValid :: "bool option"
  extRawBytes :: "byte list"
  extensionType :: ExtensionType

definition slice :: "'a list \<Rightarrow> nat \<Rightarrow> nat \<Rightarrow> 'a list" where
  "slice xs b e = take (e - b) (drop b xs)"

text \<open>
  The three extension decoders read the block's checksum byte twice: once through the
  block reader and once inside \<open>validChecksum\<close>.
\<close>

definition parseCtaExtension ::
  "BlockReader \<Rightarrow> byte list \<Rightarrow> ParsedEdidWarning list \<Rightarrow> nat \<Rightarrow> ExtensionParseContext
     \<Rightarrow> ParsedExtensionBlock \<times> ExtensionParseContext \<times> ParsedEdidWarning list" where
  "parseCtaExtension r bytes warnings extIndex context =
     (let b3 = u8OrZero r 3;
          dtdStart' = u8OrZero r 2;
          warnings1 = reads r warnings [0, 1, 2, 3, 3, 3, 3, 3];
          (coll, context2, warnings2) =
             (if dtdStart' \<noteq> 4
              then (let (c, cx, w) = parseDataBlockCollection r dtdStart' context warnings1
                    in (Some c, cx, w))
              else (None, context, warnings1));
          (dtds', warnings3) = getDtds r warnings2 dtdStart' 126;
          warnings4 = reads r warnings3 [127];
          (valid, warnings5) = validChecksum bytes warnings4 (extIndex + 1) (extIndex + 1)
      in (\<lparr>blockNumber = extIndex + 1,
           extTagByte = u8OrZero r 0,
           revisionNumber = u8OrZero r 1,
           dtdStart = dtdStart',
           numDtds = b3 AND 15,
           supportsUnderscan = flag b3 128,
           supportsBasicAudio = flag b3 64,
           supportsYCbCr444 = flag b3 32,
           supportsYCbCr422 = flag b3 16,
           dataBlockCollection = coll,
           extDtds = dtds',
           extChecksum = u8OrZero r 127,
           extIsChecksumValid = valid,
           extRawBytes = slice bytes (rdBlockOffset r) (rdBlockOffset r + EDID_BLOCK_LENGTH),
           extensionType = cta_861\<rparr>,
          context2, warnings5))"

definition parseDisplayIdExtension ::
  "BlockReader \<Rightarrow> byte list \<Rightarrow> ParsedEdidWarning list \<Rightarrow> nat
     \<Rightarrow> ParsedExtensionBlock \<times> ParsedEdidWarning list" where
  "parseDisplayIdExtension r bytes warnings extIndex =
     (let payloadLength = u8OrZero r 2;
          warnings1 = reads r warnings [0, 1, 2, 127];
          (valid, warnings2) = validChecksum bytes warnings1 (extIndex + 1) (extIndex + 1)
      in (\<lparr>blockNumber = extIndex + 1,
           extTagByte = u8OrZero r 0,
           revisionNumber = u8OrZero r 1,
           dtdStart = min 127 (5 + payloadLength),
           numDtds = 0,
           supportsUnderscan = False,
           supportsBasicAudio = False,
           supportsYCbCr444 = False,
           supportsYCbCr422 = False,
           dataBlockCollection = None,
           extDtds = [],
           extChecksum = u8OrZero r 127,
           extIsChecksumValid = valid,
           extRawBytes = slice bytes (rdBlockOffset r) (rdBlockOffset r + EDID_BLOCK_LENGTH),
           extensionType = displayid\<rparr>,
          warnings2))"

definition parseUnknownExtension ::
  "BlockReader \<Rightarrow> byte list \<Rightarrow> ParsedEdidWarning list \<Rightarrow> nat
     \<Rightarrow> ParsedExtensionBlock \<times> ParsedEdidWarning list" where
  "parseUnknownExtension r bytes warnings extIndex =
     (let b3 = u8OrZero r 3;
          warnings1 = reads r warnings [0, 1, 2, 3, 3, 3, 3, 3, 127];
          (valid, warnings2) = validChecksum bytes warnings1 (extIndex + 1) (extIndex + 1)
      in (\<lparr>blockNumber = extIndex + 1,
           extTagByte = u8OrZero r 0,
           revisionNumber = u8OrZero r 1,
           dtdStart = u8OrZero r 2,
           numDtds = b3 AND 15,
           supportsUnderscan = flag b3 128,
           supportsBasicAudio = flag b3 64,
           supportsYCbCr444 = flag b3 32,
           supportsYCbCr422 = flag b3 16,
           dataBlockCollection = None,
           extDtds = [],
           extChecksum = u8OrZero r 127,
           extIsChecksumValid = valid,
           extRawBytes = slice bytes (rdBlockOffset r) (rdBlockOffset r + EDID_BLOCK_LENGTH),
           extensionType = unknown\<rparr>,
          warn warnings2 unknown_extension_tag (Some (rdBlockIndex r)) (Some 0)))"

definition CTA_EXTENSION_TAG :: nat where "CTA_EXTENSION_TAG = 0x02"
definition DISPLAYID_EXTENSION_TAG :: nat where "DISPLAYID_EXTENSION_TAG = 0x70"

subsection \<open>The extension loop and its exception handler\<close>

text \<open>
  \<open>parseExtensions\<close> wraps the decoding of each block in \<open>try\<close>/\<open>catch\<close>.  To give
  the handler a meaning, the loop is first defined over an arbitrary decoder for the
  guarded region, which either returns a block (\<open>Inr\<close>) or raises (\<open>Inl\<close>); in both
  cases it leaves a context and a list of warnings behind, since nothing is rolled
  back when an exception is caught.  The handler logs \<open>parse_error\<close> and decodes the
  block again with \<open>parseUnknownExtension\<close>.  \<open>tryDecode\<close> is the source's guarded
  region, whose decoders raise nothing.
\<close>

type_synonym 'e ExtensionDecoder =
  "BlockReader \<Rightarrow> byte list \<Rightarrow> ParsedEdidWarning list \<Rightarrow> nat \<Rightarrow> nat \<Rightarrow> ExtensionParseContext
     \<Rightarrow> ('e + ParsedExtensionBlock) \<times> ExtensionParseContext \<times> ParsedEdidWarning list"

record ExtensionScan =
  scanExtensions :: "ParsedExtensionBlock list"
  extContext :: ExtensionParseContext
  extWarnings :: "ParsedEdidWarning list"

definition parseExtensionGuarded ::
  "'e ExtensionDecoder \<Rightarrow> byte list \<Rightarrow> nat \<Rightarrow> nat \<Rightarrow> ExtensionScan \<Rightarrow> ExtensionScan" where
  "parseExtensionGuarded decode bytes extIndex extTag st =
     (let r = createBlockReader bytes (extIndex + 1) (EDID_BLOCK_LENGTH * (extIndex + 1))
      in case decode r bytes (extWarnings st) extIndex extTag (extContext st) of
           (Inr block, context', warnings') \<Rightarrow>
             \<lparr>scanExtensions = scanExtensions st @ [block],
              extContext = context', extWarnings = warnings'\<rparr>
         | (Inl error, context', warnings') \<Rightarrow>
             (let (fallback, warnings'') =
                    parseUnknownExtension r bytes
                      (warn warnings' parse_error (Some (rdBlockIndex r)) (Some 0)) extIndex
              in \<lparr>scanExtensions = scanExtensions st @ [fallback],
                  extContext = context', extWarnings = warnings''\<rparr>))"

function parseExtensions_loop ::
  "'e ExtensionDecoder \<Rightarrow> byte list \<Rightarrow> nat \<Rightarrow> nat \<Rightarrow> ExtensionScan \<Rightarrow> ExtensionScan" where
  "parseExtensions_loop decode bytes count extIndex st =
     (if extIndex < count
      then (let r = createBlockReader bytes (extIndex + 1) (EDID_BLOCK_LENGTH * (extIndex + 1));
                st1 = st\<lparr>extWarnings := reads r (extWarnings st) [0]\<rparr>
            in case u8 r 0 of
                 None \<Rightarrow> st1
               | Some extTag \<Rightarrow>
                   parseExtensions_loop decode bytes count (extIndex + 1)
                     (parseExtensionGuarded decode bytes extIndex extTag st1))
      else st)"
  by pat_completeness auto
termination
  by (relation "measure (\<lambda>(decode, bytes, count, extIndex, st). count - extIndex)") auto

declare parseExtensions_loop.simps [simp del]

definition parseExtensions_with ::
  "'e ExtensionDecoder \<Rightarrow> byte list \<Rightarrow> ParsedEdidWarning list \<Rightarrow> nat \<Rightarrow> ExtensionParseContext
     \<Rightarrow> ExtensionScan" where
  "parseExtensions_with decode bytes warnings count context =
     parseExtensions_loop decode bytes count 0
       \<lparr>scanExtensions = [], extContext = context, extWarnings = warnings\<rparr>"

definition tryDecode :: "unit ExtensionDecoder" where
  "tryDecode r bytes warnings extIndex extTag context =
     (if extTag = CTA_EXTENSION_TAG
      then (let (b, c, w) = parseCtaExtension r bytes warnings extIndex context in (Inr b, c, w))
      else if extTag = DISPLAYID_EXTENSION_TAG
      then (let (b, w) = parseDisplayIdExtension r bytes warnings extIndex in (Inr b, context, w))
      else (let (b, w) = parseUnknownExtension r bytes warnings extIndex in (Inr b, context, w)))"

definition parseExtensions ::
  "byte list \<Rightarrow> ParsedEdidWarning list \<Rightarrow> nat \<Rightarrow> ExtensionParseContext
     \<Rightarrow> ParsedExtensionBlock list \<times> ParsedEdidWarning list" where
  "parseExtensions bytes warnings count context =
     (let st = parseExtensions_with tryDecode bytes warnings count context
      in (scanExtensions st, extWarnings st))"

section \<open>The base block\<close>

definition validateHeader ::
  "BlockReader \<Rightarrow> ParsedEdidWarning list \<Rightarrow> bool \<times> ParsedEdidWarning list" where
  "validateHeader r warnings =
     (map (u8 r) [0, 1, 2, 3, 4, 5, 6, 7]
        = [Some 0, Some 255, Some 255, Some 255, Some 255, Some 255, Some 255, Some 0],
      reads r warnings [0, 1, 2, 3, 4, 5, 6, 7])"

definition intToAscii :: "nat \<Rightarrow> string" where
  "intToAscii intCode =
     (if intCode < 27 then [''0ABCDEFGHIJKLMNOPQRSTUVWXYZ'' ! intCode] else [])"

definition getVendorId :: "BlockReader \<Rightarrow> string" where
  "getVendorId r =
     (let byte1 = u8OrZero r 8;
          byte2 = u8OrZero r 9;
          firstLetter = (drop_bit 2 byte1) AND 31;
          secondLetterTop = byte1 AND 3;
          secondLetterBottom = (drop_bit 5 byte2) AND 7;
          secondLetter = (push_bit 3 secondLetterTop) OR secondLetterBottom;
          thirdLetter = byte2 AND 31
      in intToAscii firstLetter @ intToAscii secondLetter @ intToAscii thirdLetter)"

text \<open>
  The product information without the strings taken from the monitor descriptors.
  The serial number is assembled with 32-bit signed bit operations.
\<close>

record ProductInfo =
  productCode :: nat
  serialNumberInt :: int
  manufactureWeek :: nat
  manufactureYear :: nat

definition getProductInfo :: "BlockReader \<Rightarrow> ProductInfo" where
  "getProductInfo r =
     \<lparr>productCode = (push_bit 8 (u8OrZero r 11)) OR u8OrZero r 10,
      serialNumberInt =
        signed_take_bit 31
          (int ((push_bit 24 (u8OrZero r 15)) OR (push_bit 16 (u8OrZero r 14))
                  OR (push_bit 8 (u8OrZero r 13)) OR u8OrZero r 12)),
      manufactureWeek = u8OrZero r 16,
      manufactureYear = u8OrZero r 17 + 1990\<rparr>"

text \<open>
  The basic display parameters without the gamma and the diagonal size.  The analog
  fields are present only for an analog input, \<open>isVesaDfpCompatible\<close> only for a
  digital one.
\<close>

record BasicDisplayParams =
  isDigital :: bool
  isVesaDfpCompatible :: "bool option"
  whiteSyncLevels :: "nat option"
  isBlankToBlack :: "bool option"
  isSeparateSyncSupported :: "bool option"
  isCompositeSyncSupported :: "bool option"
  isSyncOnGreen :: "bool option"
  isVsyncSerrated :: "bool option"
  bdpPhysicalWidthInMm :: nat
  bdpPhysicalHeightInMm :: nat
  supportsDpmsStandby :: bool
  supportsDpmsSuspend :: bool
  supportsDpmsActiveOff :: bool
  displayTypeCode :: nat
  isStandardSRgb :: bool
  isPreferredTiming :: bool
  isGtfSupported :: bool

definition getBasicDisplayParams ::
  "BlockReader \<Rightarrow> ParsedEdidWarning list \<Rightarrow> BasicDisplayParams \<times> ParsedEdidWarning list" where
  "getBasicDisplayParams r warnings =
     (let videoInParams = u8OrZero r 20;
          digital = flag videoInParams 128;
          supportedFeatures = u8OrZero r 24
      in (\<lparr>isDigital = digital,
           isVesaDfpCompatible = (if digital then Some (flag videoInParams 1) else None),
           whiteSyncLevels = (if digital then None else Some ((drop_bit 5 videoInParams) AND 3)),
           isBlankToBlack = (if digital then None else Some (((drop_bit 4 videoInParams) AND 1) \<noteq> 0)),
           isSeparateSyncSupported = (if digital then None else Some (((drop_bit 3 videoInParams) AND 1) \<noteq> 0)),
           isCompositeSyncSupported = (if digital then None else Some (((drop_bit 2 videoInParams) AND 1) \<noteq> 0)),
           isSyncOnGreen = (if digital then None else Some (((drop_bit 1 videoInParams) AND 1) \<noteq> 0)),
           isVsyncSerrated = (if digital then None else Some (flag videoInParams 1)),
           bdpPhysicalWidthInMm = u8OrZero r 21 * 10,
           bdpPhysicalHeightInMm = u8OrZero r 22 * 10,
           supportsDpmsStandby = flag supportedFeatures 128,
           supportsDpmsSuspend = flag supportedFeatures 64,
           supportsDpmsActiveOff = flag supportedFeatures 32,
           displayTypeCode = (drop_bit 3 supportedFeatures) AND 3,
           isStandardSRgb = flag supportedFeatures 4,
           isPreferredTiming = flag supportedFeatures 2,
           isGtfSupported = flag supportedFeatures 1\<rparr>,
          reads r warnings [20, 21, 22, 23, 24]))"

subsection \<open>Monitor descriptors\<close>

text \<open>
  The monitor descriptor scan is modelled for the bytes it reads and for the SPWG
  pair it may find.  The descriptor texts go through regular-expression clean-up
  and are not carried; \<open>parseMonitorDescriptorText\<close> therefore gives only the
  warnings of its reads.
\<close>

function parseMonitorDescriptorText ::
  "BlockReader \<Rightarrow> ParsedEdidWarning list \<Rightarrow> nat \<Rightarrow> nat \<Rightarrow> ParsedEdidWarning list" where
  "parseMonitorDescriptorText r warnings descriptorOffset index =
     (if index < 13
      then (let byte' = u8OrZero r (descriptorOffset + 5 + index);
                warnings1 = reads r warnings [descriptorOffset + 5 + index]
            in if byte' = 10 \<or> byte' = 0 then warnings1
               else parseMonitorDescriptorText r warnings1 descriptorOffset (index + 1))
      else warnings)"
  by pat_completeness auto
termination
  by (relation "measure (\<lambda>(r, warnings, descriptorOffset, index). 13 - index)") auto

declare parseMonitorDescriptorText.simps [simp del]

definition payloadOffsets :: "nat \<Rightarrow> nat list" where
  "payloadOffsets descriptorOffset = map (\<lambda>i. descriptorOffset + 5 + i) [0..<13]"

definition parseMonitorDescriptorPayload :: "BlockReader \<Rightarrow> nat \<Rightarrow> nat list" where
  "parseMonitorDescriptorPayload r descriptorOffset =
     map (u8OrZero r) (payloadOffsets descriptorOffset)"

definition decodeSpwgPartNumber :: "nat list \<Rightarrow> nat \<Rightarrow> nat \<Rightarrow> string" where
  "decodeSpwgPartNumber bytes startInclusive endExclusive =
     (let seg = slice bytes startInclusive endExclusive;
          trimmed = rev (dropWhile (\<lambda>b. b = 32 \<or> b = 0 \<or> b = 10) (rev seg))
      in map char_of
           (filter (\<lambda>b. 32 \<le> b \<and> b \<le> 126) (takeWhile (\<lambda>b. b \<noteq> 10 \<and> b \<noteq> 0) trimmed)))"

definition isSpwgDescriptor4Payload :: "nat list \<Rightarrow> bool" where
  "isSpwgDescriptor4Payload payload =
     (let byteAt = (\<lambda>i. if i < length payload then payload ! i else 0)
      in (byteAt 8 = 1 \<or> byteAt 8 = 2) \<and> (byteAt 9 AND 254) = 0 \<and> byteAt 10 = 10
         \<and> list_ex (\<lambda>i. byteAt i < 32 \<or> byteAt i > 126) [0..<8])"

record SpwgData =
  moduleRevision :: nat
  pcMakerPartNumber :: string
  lcdSupplierEedidRevision :: nat
  manufacturerPartNumber :: string
  smbusValues :: "nat list"
  lvdsChannels :: nat
  isPanelSelfTestPresent :: bool

definition tryParseSpwgDescriptorPair ::
  "BlockReader \<Rightarrow> ParsedEdidWarning list \<Rightarrow> nat \<Rightarrow> nat
     \<Rightarrow> SpwgData option \<times> ParsedEdidWarning list" where
  "tryParseSpwgDescriptorPair r warnings descriptorOffset endOffset =
     (let nextDescriptorOffset = descriptorOffset + DTD_LENGTH
      in if nextDescriptorOffset \<ge> endOffset then (None, warnings)
         else (let hdr = map (\<lambda>i. nextDescriptorOffset + i) [0..<5];
                   warnings1 = reads r warnings hdr
               in if map (u8 r) hdr \<noteq> [Some 0, Some 0, Some 0, Some 254, Some 0]
                  then (None, warnings1)
                  else (let descriptor3Payload = parseMonitorDescriptorPayload r descriptorOffset;
                            descriptor4Payload =
                              parseMonitorDescriptorPayload r nextDescriptorOffset;
                            warnings2 =
                              reads r warnings1
                                (payloadOffsets descriptorOffset
                                 @ payloadOffsets nextDescriptorOffset);
                            pcMaker = decodeSpwgPartNumber descriptor3Payload 0 5;
                            manufacturer = decodeSpwgPartNumber descriptor3Payload 6 13
                        in if \<not> isSpwgDescriptor4Payload descriptor4Payload
                           then (None, warnings2)
                           else if pcMaker = [] \<or> manufacturer = [] then (None, warnings2)
                           else (case u8 r (descriptorOffset - 1) of
                                   None \<Rightarrow> (None, reads r warnings2 [descriptorOffset - 1])
                                 | Some rev' \<Rightarrow>
                                     (Some \<lparr>moduleRevision = rev',
                                            pcMakerPartNumber = pcMaker,
                                            lcdSupplierEedidRevision = descriptor3Payload ! 5,
                                            manufacturerPartNumber = manufacturer,
                                            smbusValues = take 8 descriptor4Payload,
                                            lvdsChannels = descriptor4Payload ! 8,
                                            isPanelSelfTestPresent =
                                              ((descriptor4Payload ! 9) AND 1 = 1)\<rparr>,
                                      reads r warnings2 [descriptorOffset - 1])))))"

function getMonitorDescriptors_loop ::
  "BlockReader \<Rightarrow> ParsedEdidWarning list \<Rightarrow> nat \<Rightarrow> nat \<Rightarrow> SpwgData option
     \<Rightarrow> SpwgData option \<times> ParsedEdidWarning list" where
  "getMonitorDescriptors_loop r warnings descriptorOffset endOffset spwg =
     (if descriptorOffset < endOffset
      then (let hdr = map (\<lambda>i. descriptorOffset + i) [0..<5];
                warnings1 = reads r warnings hdr
            in case map (u8 r) hdr of
                 [Some byte0, Some byte1, Some byte2, Some descriptorTag, Some byte4] \<Rightarrow>
                   (if byte0 = 0 \<and> byte1 = 0 \<and> byte2 = 0 \<and> byte4 = 0
                       \<and> (descriptorTag = 255 \<or> descriptorTag = 254 \<or> descriptorTag = 252)
                    then (let (found, warnings2) =
                                (if descriptorTag = 254 \<and> spwg = None
                                 then tryParseSpwgDescriptorPair r warnings1 descriptorOffset
                                        endOffset
                                 else (None, warnings1))
                          in case found of
                               Some s \<Rightarrow>
                                 getMonitorDescriptors_loop r warnings2
                                   (descriptorOffset + DTD_LENGTH * 2) endOffset (Some s)
                             | None \<Rightarrow>
                                 getMonitorDescriptors_loop r
                                   (parseMonitorDescriptorText r warnings2 descriptorOffset 0)
                                   (descriptorOffset + DTD_LENGTH) endOffset spwg)
                    else getMonitorDescriptors_loop r warnings1
                           (descriptorOffset + DTD_LENGTH) endOffset spwg)
               | _ \<Rightarrow> (spwg, warnings1))
      else (spwg, warnings))"
  by pat_completeness auto
termination
  by (relation "measure (\<lambda>(r, warnings, descriptorOffset, endOffset, spwg).
                           endOffset - descriptorOffset)")
     (auto simp: DTD_LENGTH_def)

declare getMonitorDescriptors_loop.simps [simp del]

definition getMonitorDescriptors ::
  "BlockReader \<Rightarrow> ParsedEdidWarning list \<Rightarrow> nat \<Rightarrow> nat
     \<Rightarrow> SpwgData option \<times> ParsedEdidWarning list" where
  "getMonitorDescriptors r warnings startOffset endOffset =
     getMonitorDescriptors_loop r warnings startOffset endOffset None"

subsection \<open>Decoding the base block\<close>

text \<open>
  The base block without its chromaticity, established-timings bitmap and version
  string; the bytes read for them are logged in the source's order.  The vendor
  lookup tables are not part of the sources at hand, so the vendor information is
  the vendor id alone.
\<close>

record ParsedBaseEdidBlock =
  vendorId :: string
  rawBytes :: "byte list"
  spwg :: "SpwgData option"
  isHeaderValid :: bool
  edidVersion :: nat
  edidRevision :: nat
  standardDisplayModes :: "StandardDisplayMode list"
  dtds :: "Dtd list"
  numberOfExtensions :: nat
  checksum :: nat
  isChecksumValid :: "bool option"

record ParsedBaseBlockResult =
  pbBaseBlock :: ParsedBaseEdidBlock
  pbProductInfo :: ProductInfo
  pbBasicDisplayParams :: BasicDisplayParams
  pbNativeResolution :: "NativeResolution option"

definition parseBaseBlock ::
  "BlockReader \<Rightarrow> byte list \<Rightarrow> ParsedEdidWarning list
     \<Rightarrow> ParsedBaseBlockResult \<times> ParsedEdidWarning list" where
  "parseBaseBlock r bytes warnings =
     (let vid = getVendorId r;
          w1 = reads r warnings [8, 9];
          (spwg', w2) = getMonitorDescriptors r w1 54 126;
          productInfo = getProductInfo r;
          w3 = reads r w2 [11, 10, 15, 14, 13, 12, 16, 17];
          (basicDisplayParams, w4) = getBasicDisplayParams r w3;
          (headerValid, w5) = validateHeader r w4;
          version = u8OrZero r 18;
          revision = u8OrZero r 19;
          w6 = reads r w5 [18, 19];
          w7 = (if version = 1 \<and> revision \<notin> set [0, 1, 2, 3, 4]
                then warn w6 unknown_edid_minor_version (Some (rdBlockIndex r)) (Some 19)
                else w6);
          w8 = reads r w7 [25, 27, 28, 29, 30, 26, 31, 32, 33, 34, 35, 36, 37];
          (modes, w9) = getStandardDisplayModes r w8;
          (dtds', w10) = getDtds r w9 54 126;
          nativeResolution = getNativeResolution dtds' (isPreferredTiming basicDisplayParams);
          w11 = reads r w10 [126, 127];
          (valid, w12) = validChecksum bytes w11 0 0
      in (\<lparr>pbBaseBlock =
             \<lparr>vendorId = vid,
              rawBytes = slice bytes 0 EDID_BLOCK_LENGTH,
              spwg = spwg',
              isHeaderValid = headerValid,
              edidVersion = version,
              edidRevision = revision,
              standardDisplayModes = modes,
              dtds = dtds',
              numberOfExtensions = u8OrZero r 126,
              checksum = u8OrZero r 127,
              isChecksumValid = valid\<rparr>,
           pbProductInfo = productInfo,
           pbBasicDisplayParams = basicDisplayParams,
           pbNativeResolution = nativeResolution\<rparr>,
          w12))"

section \<open>Feature aggregation\<close>

text \<open>
  \<open>buildFeatureSupport\<close> is modelled for the refresh-rate range, the VRR range and
  flag, the HDR flags, game mode and ALLM.  The colour gamuts, the bit depth and the
  HDMI, EDID and DisplayID versions are not carried.
\<close>

definition getDtdRefreshRateHz :: "Dtd \<Rightarrow> jsnum option" where
  "getDtdRefreshRateHz dtd =
     (if horizontalActivePixels dtd \<le> 0 \<or> verticalActivePixels dtd \<le> 0 then None
      else (let horizontalTotal = horizontalActivePixels dtd + horizontalBlankLineCount dtd;
                verticalTotal = verticalActivePixels dtd + verticalBlankLineCount dtd
            in if horizontalTotal \<le> 0 \<or> verticalTotal \<le> 0 then None
               else (let refreshRateHz' =
                           Num ((pixelClockMhz dtd * 1000000)
                                  / of_nat (horizontalTotal * verticalTotal))
                     in if isFinite refreshRateHz' \<and> js_less (Num 0) refreshRateHz'
                        then Some refreshRateHz' else None)))"

record FeatureSupport =
  supportsHDR10' :: bool
  supportsHDR10Plus' :: bool
  supportsDolbyVision' :: bool
  minSrrHz :: jsnum
  maxSrrHz :: jsnum
  supportsVRR' :: bool
  minVrrHz :: "jsnum option"
  maxVrrHz :: "jsnum option"
  supportsGameMode :: bool
  supportsALLM' :: bool

text \<open>
  The three closures of \<open>buildFeatureSupport\<close> that record a rate.  They act on
  the running values, which are kept in a \<open>FeatureSupport\<close> record.
\<close>

definition usableRate :: "jsnum option \<Rightarrow> jsnum option" where
  "usableRate rateHz =
     (case rateHz of
        None \<Rightarrow> None
      | Some x \<Rightarrow>
          (if \<not> isFinite x \<or> js_le x (Num 0) then None
           else (let rounded = Math_round x
                 in if js_le rounded (Num 0) then None else Some rounded)))"

definition addSrrRate :: "jsnum option \<Rightarrow> FeatureSupport \<Rightarrow> FeatureSupport" where
  "addSrrRate rateHz fs =
     (case usableRate rateHz of
        None \<Rightarrow> fs
      | Some rounded \<Rightarrow>
          fs\<lparr>minSrrHz := (if js_less rounded (minSrrHz fs) then rounded else minSrrHz fs),
             maxSrrHz := (if js_less (maxSrrHz fs) rounded then rounded else maxSrrHz fs)\<rparr>)"

definition addVrrMin :: "jsnum option \<Rightarrow> FeatureSupport \<Rightarrow> FeatureSupport" where
  "addVrrMin rateHz fs =
     (case usableRate rateHz of
        None \<Rightarrow> fs
      | Some rounded \<Rightarrow>
          fs\<lparr>minVrrHz := Some (case minVrrHz fs of None \<Rightarrow> rounded
                                | Some m \<Rightarrow> Math_min m rounded)\<rparr>)"

definition addVrrMax :: "jsnum option \<Rightarrow> FeatureSupport \<Rightarrow> FeatureSupport" where
  "addVrrMax rateHz fs =
     (case usableRate rateHz of
        None \<Rightarrow> fs
      | Some rounded \<Rightarrow>
          fs\<lparr>maxVrrHz := Some (case maxVrrHz fs of None \<Rightarrow> rounded
                                | Some m \<Rightarrow> Math_max m rounded)\<rparr>)"

text \<open>The body of the loop over the data blocks of one extension.\<close>

definition hfFlag :: "HdmiForumFeatures option \<Rightarrow> (HdmiForumFeatures \<Rightarrow> bool) \<Rightarrow> bool" where
  "hfFlag features sel = (case features of None \<Rightarrow> False | Some f \<Rightarrow> sel f)"

definition addVendorBlock :: "VendorDataBlock \<Rightarrow> FeatureSupport \<Rightarrow> FeatureSupport" where
  "addVendorBlock dataBlock fs =
     addVrrMax (map_option num (vendorVrrMaxHz dataBlock))
       (addVrrMin (map_option num (vendorVrrMinHz dataBlock))
          (fs\<lparr>supportsDolbyVision' :=
                 (supportsDolbyVision' fs \<or> vendorSupportsDolbyVision dataBlock),
               supportsGameMode := (supportsGameMode fs \<or> supportsGameContentType dataBlock),
               supportsVRR' :=
                 (supportsVRR' fs
                  \<or> hfFlag (vendorHdmiForumFeatures dataBlock) hf_supportsCinemaVRR
                  \<or> hfFlag (vendorHdmiForumFeatures dataBlock) hf_supportsNegativeMVRR
                  \<or> vendorVrrMinHz dataBlock \<noteq> None \<or> vendorVrrMaxHz dataBlock \<noteq> None),
               supportsALLM' :=
                 (supportsALLM' fs \<or> hfFlag (vendorHdmiForumFeatures dataBlock) hf_supportsALLM)\<rparr>))"

definition addExtendedTagBlock :: "ExtendedTagDataBlock \<Rightarrow> FeatureSupport \<Rightarrow> FeatureSupport" where
  "addExtendedTagBlock dataBlock fs =
     addVrrMax (map_option num (extVrrMaxHz dataBlock))
       (addVrrMin (map_option num (extVrrMinHz dataBlock))
          (fs\<lparr>supportsHDR10' := (supportsHDR10' fs \<or> supportsHDR10 dataBlock),
               supportsHDR10Plus' := (supportsHDR10Plus' fs \<or> supportsHDR10Plus dataBlock),
               supportsDolbyVision' :=
                 (supportsDolbyVision' fs \<or> extSupportsDolbyVision dataBlock),
               supportsVRR' :=
                 (supportsVRR' fs \<or> supportsVRR dataBlock \<or> supportsCinemaVRR dataBlock
                  \<or> supportsNegativeMRR dataBlock
                  \<or> extVrrMinHz dataBlock \<noteq> None \<or> extVrrMaxHz dataBlock \<noteq> None),
               supportsALLM' :=
                 (supportsALLM' fs \<or> supportsALLM dataBlock
                  \<or> hfFlag (extHdmiForumFeatures dataBlock) hf_supportsALLM)\<rparr>))"

fun addDataBlock :: "FeatureSupport \<Rightarrow> AnyDataBlock option \<Rightarrow> FeatureSupport" where
  "addDataBlock fs (Some (VendorBlock b)) = addVendorBlock b fs"
| "addDataBlock fs (Some (ExtendedTagBlock b)) = addExtendedTagBlock b fs"
| "addDataBlock fs _ = fs"

definition addExtension :: "FeatureSupport \<Rightarrow> ParsedExtensionBlock \<Rightarrow> FeatureSupport" where
  "addExtension fs ext =
     (let fs1 = foldl (\<lambda>a dtd. addSrrRate (getDtdRefreshRateHz dtd) a) fs (extDtds ext)
      in case dataBlockCollection ext of
           None \<Rightarrow> fs1
         | Some dataBlocks \<Rightarrow> foldl addDataBlock fs1 dataBlocks)"

definition initialFeatureSupport :: FeatureSupport where
  "initialFeatureSupport =
     \<lparr>supportsHDR10' = False, supportsHDR10Plus' = False, supportsDolbyVision' = False,
      minSrrHz = PosInfinity, maxSrrHz = Num 0, supportsVRR' = False,
      minVrrHz = None, maxVrrHz = None, supportsGameMode = False, supportsALLM' = False\<rparr>"

text \<open>The running values after all blocks have been visited.\<close>

definition collectFeatures ::
  "ParsedBaseEdidBlock \<Rightarrow> ParsedExtensionBlock list \<Rightarrow> NativeResolution option
     \<Rightarrow> FeatureSupport" where
  "collectFeatures baseBlock extensions nativeResolution =
     (let fs1 = addSrrRate (map_option refreshRateHz nativeResolution) initialFeatureSupport;
          fs2 = foldl (\<lambda>a mode. addSrrRate (Some (num (vertFreqHz mode))) a) fs1
                  (standardDisplayModes baseBlock);
          fs3 = foldl (\<lambda>a dtd. addSrrRate (getDtdRefreshRateHz dtd) a) fs2 (dtds baseBlock)
      in foldl addExtension fs3 extensions)"

text \<open>The reconciliation of the static range with the VRR range, at the end.\<close>

definition reconcileRefreshRange :: "FeatureSupport \<Rightarrow> FeatureSupport" where
  "reconcileRefreshRange fs =
     (let minSrr1 = (case minVrrHz fs of
                       Some v \<Rightarrow> if js_less v (minSrrHz fs) then v else minSrrHz fs
                     | None \<Rightarrow> minSrrHz fs);
          maxSrr1 = (case maxVrrHz fs of
                       Some v \<Rightarrow> if js_less (maxSrrHz fs) v then v else maxSrrHz fs
                     | None \<Rightarrow> maxSrrHz fs);
          minSrr2 = (if \<not> isFinite minSrr1
                     then (case minVrrHz fs of
                             Some v \<Rightarrow> v
                           | None \<Rightarrow> (case maxVrrHz fs of Some v \<Rightarrow> v | None \<Rightarrow> Num 0))
                     else minSrr1);
          maxSrr2 = (if maxSrr1 = Num 0
                     then (case maxVrrHz fs of Some v \<Rightarrow> v | None \<Rightarrow> minSrr2)
                     else maxSrr1);
          maxSrr3 = (if js_less maxSrr2 minSrr2 then minSrr2 else maxSrr2)
      in fs\<lparr>minSrrHz := minSrr2,
             maxSrrHz := maxSrr3,
             supportsVRR' :=
               (if \<not> supportsVRR' fs \<and> (minVrrHz fs \<noteq> None \<or> maxVrrHz fs \<noteq> None)
                then True else supportsVRR' fs)\<rparr>)"

definition buildFeatureSupport ::
  "ParsedBaseEdidBlock \<Rightarrow> ParsedExtensionBlock list \<Rightarrow> NativeResolution option
     \<Rightarrow> FeatureSupport" where
  "buildFeatureSupport baseBlock extensions nativeResolution =
     reconcileRefreshRange (collectFeatures baseBlock extensions nativeResolution)"

section \<open>The entry point\<close>

text \<open>
  The input is an array of integers; building the \<open>Uint8ClampedArray\<close> clamps each
  to the range of a byte.
\<close>

definition clampByte :: "int \<Rightarrow> byte" where
  "clampByte x = (if x < 0 then 0 else if x > 255 then 255 else word_of_int x)"

record ParsedEdid =
  edidBytes :: "byte list"
  edidWarnings :: "ParsedEdidWarning list"
  edidIsHeaderValid :: bool
  edidIsChecksumValid :: "bool option"
  expectedExtensionCount :: nat
  baseBlock :: ParsedBaseEdidBlock
  extensions :: "ParsedExtensionBlock list"
  featureSupport :: FeatureSupport
  productInfo :: ProductInfo
  basicDisplayParams :: BasicDisplayParams
  nativeResolution :: "NativeResolution option"

definition checksumWarnings ::
  "ParsedEdidWarning list \<Rightarrow> ParsedExtensionBlock list \<Rightarrow> ParsedEdidWarning list" where
  "checksumWarnings warnings exts =
     foldl (\<lambda>w ext. if extIsChecksumValid ext = Some False
                     then warn w checksum_failed (Some (blockNumber ext)) (Some 127) else w)
       warnings exts"

definition parseEdid :: "int list \<Rightarrow> ParsedEdid" where
  "parseEdid data' =
     (let bytes = map clampByte data';
          w0 = [];
          w1 = (if length bytes < EDID_BLOCK_LENGTH then warn w0 too_short None None else w0);
          w2 = (if length bytes mod EDID_BLOCK_LENGTH \<noteq> 0
                then warn w1 length_not_multiple_of_128 None None else w1);
          baseReader = createBlockReader bytes 0 0;
          (pb, w3) = parseBaseBlock baseReader bytes w2;
          base = pbBaseBlock pb;
          w4 = (if \<not> isHeaderValid base then warn w3 invalid_header (Some 0) (Some 0) else w3);
          w5 = (if isChecksumValid base = Some False
                then warn w4 checksum_failed (Some 0) (Some 127) else w4);
          expected = numberOfExtensions base;
          actualExtensionCount = length bytes div EDID_BLOCK_LENGTH - 1;
          w6 = (if expected \<noteq> actualExtensionCount
                then warn w5 extension_count_mismatch None None else w5);
          (exts, w7) = parseExtensions bytes w6 actualExtensionCount None;
          w8 = checksumWarnings w7 exts
      in \<lparr>edidBytes = bytes,
          edidWarnings = w8,
          edidIsHeaderValid = isHeaderValid base,
          edidIsChecksumValid = isChecksumValid base,
          expectedExtensionCount = expected,
          baseBlock = base,
          extensions = exts,
          featureSupport = buildFeatureSupport base exts (pbNativeResolution pb),
          productInfo = pbProductInfo pb,
          basicDisplayParams = pbBasicDisplayParams pb,
          nativeResolution = pbNativeResolution pb\<rparr>)"

section \<open>Notions used to state the properties\<close>

text \<open>
  The definitions of this section are not part of the decoder.  They name what the
  properties below speak about.
\<close>

subsection \<open>The headers reached by the data block walk\<close>

text \<open>
  Starting at \<open>index\<close>, each header byte gives a tag (bits 7 to 5) and a length
  (bits 4 to 0), and the next header is \<open>length + 1\<close> bytes further.  The walk ends
  at \<open>endAddress\<close> or at the first byte that cannot be read.
\<close>

function dataBlockHeaders :: "BlockReader \<Rightarrow> nat \<Rightarrow> nat \<Rightarrow> (nat \<times> nat \<times> nat) list" where
  "dataBlockHeaders r endAddress index =
     (if index < endAddress
      then (case u8 r index of
              None \<Rightarrow> []
            | Some headerByte \<Rightarrow>
                (index, (drop_bit 5 headerByte) AND 7, headerByte AND 31)
                  # dataBlockHeaders r endAddress (index + (headerByte AND 31) + 1))
      else [])"
  by pat_completeness auto
termination
  by (relation "measure (\<lambda>(r, endAddress, index). endAddress - index)") auto

declare dataBlockHeaders.simps [simp del]

definition videoHeaders :: "BlockReader \<Rightarrow> nat \<Rightarrow> (nat \<times> nat \<times> nat) list" where
  "videoHeaders r endAddress =
     filter (\<lambda>(index, tagCode, len). tagCode = 2) (dataBlockHeaders r endAddress START_DATA_BLOCK)"

text \<open>The Short Video Descriptors of the video block whose header is at \<open>index\<close>.\<close>

definition svdsOfHeader :: "BlockReader \<Rightarrow> nat \<times> nat \<times> nat \<Rightarrow> ShortVideoDescriptor list" where
  "svdsOfHeader r h =
     (case h of (index, tagCode, len) \<Rightarrow>
        shortVideoDescriptors (fst (parseVideoDataBlock r [] (index + 1) len)))"

definition mergedVideoBlock :: "BlockReader \<Rightarrow> (nat \<times> nat \<times> nat) list \<Rightarrow> VideoDataBlock" where
  "mergedVideoBlock r hs =
     \<lparr>videoDataLength = sum_list (map (\<lambda>(index, tagCode, len). len) hs),
      shortVideoDescriptors = concat (map (svdsOfHeader r) hs)\<rparr>"

subsection \<open>Candidates of the recovery scan\<close>

text \<open>
  Offset \<open>i\<close> is a candidate when it holds an extended-tag header with a nonzero
  length that fits below \<open>endAddress\<close> and the byte after it is the SCDB code.
\<close>

definition scdbCandidate :: "BlockReader \<Rightarrow> nat \<Rightarrow> nat \<Rightarrow> bool" where
  "scdbCandidate r endAddress i =
     (case u8 r i of
        None \<Rightarrow> False
      | Some headerByte \<Rightarrow>
          (drop_bit 5 headerByte) AND 7 = 7
          \<and> headerByte AND 31 \<noteq> 0
          \<and> i + 1 + (headerByte AND 31) \<le> endAddress
          \<and> u8 r (i + 1) = Some HDMI_FORUM_SCDB)"

definition firstScdbCandidate :: "BlockReader \<Rightarrow> nat \<Rightarrow> nat option" where
  "firstScdbCandidate r endAddress =
     find (scdbCandidate r endAddress) [START_DATA_BLOCK..<endAddress]"

definition scdbBlockAt :: "BlockReader \<Rightarrow> nat \<Rightarrow> AnyDataBlock option" where
  "scdbBlockAt r i =
     (let len = u8OrZero r i AND 31
      in Some (ExtendedTagBlock
                 (fst (parseHDMIForumSCDB r [] (i + 1) len (emptyExtendedTagDataBlock len)))))"

subsection \<open>An extension decoder with its exceptions handled\<close>



subsection \<open>The rates that enter the refresh-rate range\<close>







text \<open>A positive whole number of hertz.\<close>

definition wholeHz :: "jsnum \<Rightarrow> bool" where
  "wholeHz x = (case x of Num q \<Rightarrow> 0 < q \<and> q = of_int \<lfloor>q\<rfloor> | _ \<Rightarrow> False)"

subsection \<open>Bits of a data block's payload\<close>

text \<open>
  The payload of a data block is the \<open>blockLength\<close> bytes from \<open>startAddress\<close> on
  (the first one is the extended-tag code).  Bit mask \<open>m\<close> is set in byte \<open>i\<close> of
  the payload when the payload has a byte \<open>i\<close> and the byte has the bit; a byte
  that lies beyond the end of the buffer reads as 0.
\<close>

definition payloadBit :: "BlockReader \<Rightarrow> nat \<Rightarrow> nat \<Rightarrow> nat \<Rightarrow> nat \<Rightarrow> bool" where
  "payloadBit r startAddress blockLength i m =
     (i < blockLength \<and> flag (u8OrZero r (startAddress + i)) m)"

subsection \<open>Warnings by code\<close>


subsection \<open>Running bounds\<close>

text \<open>
  \<open>lowerTo a x\<close> and \<open>raiseTo a x\<close> are the running minimum and maximum as the
  accumulation computes them.  \<open>signalsVrr\<close> says that a data block carries one of
  the signals that set the VRR flag.  \<open>wholeRates\<close> is the invariant of the running
  values: every recorded rate is a positive whole number.
\<close>

definition lowerTo :: "jsnum \<Rightarrow> jsnum \<Rightarrow> jsnum" where
  "lowerTo a x = (if js_less x a then x else a)"

definition raiseTo :: "jsnum \<Rightarrow> jsnum \<Rightarrow> jsnum" where
  "raiseTo a x = (if js_less a x then x else a)"






subsection \<open>Steps of the VRR bounds\<close>




subsection \<open>Sample inputs of the feature aggregation\<close>




subsection \<open>A decoder that raises\<close>


subsection \<open>Warnings that are only appended\<close>

text \<open>
  \<open>laterCodes\<close> are the codes of the warnings that can be raised once the two checks
  of the input length are done.  \<open>appendsOnly ws ws'\<close> says that \<open>ws'\<close> is \<open>ws\<close> with
  warnings of these codes appended: nothing of \<open>ws\<close> is dropped, changed or
  reordered.
\<close>

definition laterCodes :: "ParsedEdidWarningCode list" where
  "laterCodes =
     [invalid_header, checksum_failed, extension_count_mismatch, unknown_edid_minor_version,
      unknown_extension_tag, unknown_data_block, parse_error, out_of_range_read]"

definition appendsOnly :: "ParsedEdidWarning list \<Rightarrow> ParsedEdidWarning list \<Rightarrow> bool" where
  "appendsOnly ws ws' =
     (take (length ws) ws' = ws
      \<and> list_all (\<lambda>w. code w \<in> set laterCodes) (drop (length ws) ws'))"

subsection \<open>Slots of the data block collection\<close>

text \<open>
  \<open>blockTag\<close> is the tag value of a slot of the collection (\<open>block?.tag.value\<close> in
  the source), absent for an empty slot.  \<open>slotTags seen hs\<close> lists, for the headers
  \<open>hs\<close> in the order of the walk, the tag that the slot of each header is to hold:
  the header's tag when it is a known one, except that a video header after the first
  (\<open>seen\<close> says that a video header came before) leaves its slot empty.
  \<open>videoSlots r vs st\<close> is the invariant of the walk once the video headers \<open>vs\<close> have
  been visited: the collection holds no video block if \<open>vs\<close> is empty, and otherwise
  exactly one, at the slot that \<open>primaryVideoBlock\<close> refers to, and it is the merge
  of the blocks of \<open>vs\<close>.
\<close>

fun blockTag :: "AnyDataBlock option \<Rightarrow> nat option" where
  "blockTag (Some (AudioBlock _)) = Some 1"
| "blockTag (Some (VideoBlock _)) = Some 2"
| "blockTag (Some (VendorBlock _)) = Some 3"
| "blockTag (Some (SpeakerBlock _)) = Some 4"
| "blockTag (Some (ExtendedTagBlock _)) = Some 7"
| "blockTag None = None"

fun slotTags :: "bool \<Rightarrow> (nat \<times> nat \<times> nat) list \<Rightarrow> nat option list" where
  "slotTags seen [] = []"
| "slotTags seen ((index, tagCode, len) # hs) =
     (if tagCode = 2 then (if seen then None else Some 2) # slotTags True hs
      else (if tagCode \<in> set [1, 3, 4, 7] then Some tagCode else None) # slotTags seen hs)"

definition videoSlots :: "BlockReader \<Rightarrow> (nat \<times> nat \<times> nat) list \<Rightarrow> DataBlockScan \<Rightarrow> bool" where
  "videoSlots r vs st =
     (case primaryVideoBlock st of
        None \<Rightarrow> vs = [] \<and> filter isVideoBlock (scanCollection st) = []
      | Some (slot, primary) \<Rightarrow>
          vs \<noteq> [] \<and> primary = mergedVideoBlock r vs
          \<and> slot < length (scanCollection st)
          \<and> scanCollection st ! slot = Some (VideoBlock primary)
          \<and> filter isVideoBlock (scanCollection st) = [Some (VideoBlock primary)])"

section \<open>Properties\<close>

subsection \<open>The byte reader\<close>

lemma u8_eq:
  "u8 r off = (if rdBlockOffset r + off \<ge> length (rdBytes r) then None
               else Some (unat (rdBytes r ! (rdBlockOffset r + off))))"
  by (simp add: u8_def readU8_def)

lemma u8_None_mono: "u8 r i = None \<Longrightarrow> i \<le> j \<Longrightarrow> u8 r j = None"
  by (simp add: u8_eq split: if_splits)

lemma u8_less_256: "u8 r i = Some b \<Longrightarrow> b < 256"
proof -
  assume "u8 r i = Some b"
  then have "b = unat (rdBytes r ! (rdBlockOffset r + i))"
    by (simp add: u8_eq split: if_splits)
  moreover have "unat (rdBytes r ! (rdBlockOffset r + i)) < 2 ^ 8"
    by (rule order_less_le_trans [OF unsigned_less]) simp
  ultimately show ?thesis by simp
qed

subsection \<open>Checksums\<close>

lemma calcChecksum_loop_sum:
  "calcChecksum_loop bytes i e c =
     c + (\<Sum>k = i..<e. if k < length bytes then unat (bytes ! k) else 0)"
proof (induction bytes i e c rule: calcChecksum_loop.induct)
  case (1 bytes index endAddress checksum)
  show ?case
  proof (cases "index < endAddress")
    case True
    with 1 show ?thesis
      by (subst calcChecksum_loop.simps) (simp add: sum.atLeast_Suc_lessThan)
  next
    case False
    then show ?thesis by (subst calcChecksum_loop.simps) simp
  qed
qed

lemma sum_nth_take:
  "n \<le> length xs \<Longrightarrow> (\<Sum>k = 0..<n. f (xs ! k)) = sum_list (map f (take n xs))"
proof (induction n)
  case 0
  then show ?case by simp
next
  case (Suc n)
  then show ?case by (simp add: take_Suc_conv_app_nth)
qed

text \<open>
  What the base block's checksum validation computes: the stored byte is compared
  with 256 minus the sum of bytes 0 to 126 modulo 256, a number between 1 and 256.
\<close>

lemma validChecksum_base:
  assumes "128 \<le> length bytes"
  shows "fst (validChecksum bytes warnings 0 bi)
           = Some (unat (bytes ! 127) = 256 - sum_list (map unat (take 127 bytes)) mod 256)"
proof -
  have "(\<Sum>k = 0..<127. if k < length bytes then unat (bytes ! k) else 0)
          = (\<Sum>k = 0..<127. unat (bytes ! k))"
    using assms by (intro sum.cong) auto
  also have "\<dots> = sum_list (map unat (take 127 bytes))"
    using assms by (intro sum_nth_take) simp
  finally show ?thesis
    using assms
    by (simp add: validChecksum_def readU8_def calcChecksum_def EDID_BLOCK_LENGTH_def
                  calcChecksum_loop_sum Let_def)
qed

lemma validChecksum_fst:
  "fst (validChecksum bytes ws b i) = fst (validChecksum bytes ws' b i)"
  by (simp add: validChecksum_def readU8_def Let_def split: option.splits)

lemma parseBaseBlock_isChecksumValid:
  "isChecksumValid (pbBaseBlock (fst (parseBaseBlock r bytes ws)))
     = fst (validChecksum bytes [] 0 0)"
  unfolding parseBaseBlock_def Let_def split_def
  by (simp split del: if_split) (rule validChecksum_fst)

lemma parseEdid_isChecksumValid:
  "edidIsChecksumValid (parseEdid d) = fst (validChecksum (map clampByte d) [] 0 0)"
  unfolding parseEdid_def Let_def split_def
  by (simp add: parseBaseBlock_isChecksumValid)

text \<open>
  Claim C2 (checksum rule).  The claim: for an input of at least 128 bytes, the base
  block's \<open>isChecksumValid\<close> is true exactly when byte 127 equals
  \<open>(256 - (sum of bytes 0..126 mod 256)) mod 256\<close>, so that the valid checksum is 0
  when the bytes sum to 0 modulo 256.  The decoder does not do this: for the 128-byte
  block that consists of the header signature, a byte 6 at offset 8 and zeros, bytes
  0 to 126 sum to 1536, a multiple of 256, byte 127 is 0 as the rule asks, and the
  decoder reports the checksum as invalid.
\<close>

theorem C2_zero_sum_checksum_rejected:
  "edidIsChecksumValid
     (parseEdid ([0, 255, 255, 255, 255, 255, 255, 0, 6] @ replicate 119 0)) = Some False
   \<and> sum_list (map unat (take 127
         (map clampByte ([0, 255, 255, 255, 255, 255, 255, 0, 6] @ replicate 119 0)))) = 1536
   \<and> unat (map clampByte ([0, 255, 255, 255, 255, 255, 255, 0, 6] @ replicate 119 0) ! 127)
       = (256 - 1536 mod 256) mod 256"
  by (simp add: parseEdid_isChecksumValid validChecksum_base nth_append sum_list_replicate
                clampByte_def)

subsection \<open>Standard display modes\<close>

lemma getStandardDisplayModes_loop_fst:
  "fst (getStandardDisplayModes_loop r ws i acc) = fst (getStandardDisplayModes_loop r ws' i acc)"
proof (induction r ws i acc arbitrary: ws' rule: getStandardDisplayModes_loop.induct)
  case (1 r warnings index acc)
  show ?case
    using 1(1)[where ws' = "reads r ws' [index, index + 1]"]
          1(2)[where ws' = "reads r ws' [index, index + 1]"]
    by (simp add: getStandardDisplayModes_loop.simps[of r warnings index acc]
                  getStandardDisplayModes_loop.simps[of r ws' index acc] Let_def
             split: option.splits)
qed

lemma parseBaseBlock_standardDisplayModes:
  "standardDisplayModes (pbBaseBlock (fst (parseBaseBlock r bytes ws)))
     = fst (getStandardDisplayModes r [])"
  unfolding parseBaseBlock_def Let_def split_def getStandardDisplayModes_def
  by (simp split del: if_split) (rule getStandardDisplayModes_loop_fst)

lemma parseEdid_standardDisplayModes:
  "standardDisplayModes (baseBlock (parseEdid d))
     = fst (getStandardDisplayModes (createBlockReader (map clampByte d) 0 0) [])"
  unfolding parseEdid_def Let_def split_def
  by (simp add: parseBaseBlock_standardDisplayModes)

text \<open>
  Claim C3 (standard display modes).  The claim: a two-byte slot at bytes 38 to 53 is
  unused only when both of its bytes are \<open>0x01\<close>, and every other pair yields a mode
  with \<open>xResolutionPx = (byte1 + 31) * 8\<close>, the aspect code from bits 7 to 6 of byte2
  and \<open>vertFreqHz = (byte2 & 0x3F) + 60\<close>.  The decoder does not do this: it skips a
  slot as soon as one of its bytes is \<open>0x01\<close>.  For a 128-byte block whose first slot
  is \<open>0xD1, 0x01\<close> and whose other slots are \<open>0x01, 0x01\<close> it yields no mode, where
  the claim asks for the mode 1920 pixels, aspect code 0, 61 Hz.
\<close>

theorem C3_slot_with_one_byte_01_skipped:
  "standardDisplayModes (baseBlock (parseEdid
      (replicate 38 0 @ [0xD1, 0x01] @ replicate 14 1 @ replicate 74 0))) = []
   \<and> (0xD1 + 31) * 8 = (1920::nat) \<and> drop_bit 6 (0x01::nat) AND 3 = 0
   \<and> ((0x01::nat) AND 0x3F) + 60 = 61"
  unfolding parseEdid_standardDisplayModes by code_simp

subsection \<open>HDR static metadata\<close>

lemma upt_0_4: "[0..<4] = [0, 1, 2, 3]"
  by (simp add: upt_rec)

lemma pq_in_labelsOf: "SMPTE_ST2084_PQ \<in> set (labelsOf EOTF_LABELS b) \<longleftrightarrow> flag b 4"
  by (auto simp: labelsOf_def EOTF_LABELS_def upt_0_4)

lemma type1_in_labelsOf:
  "Static_Metadata_Type_1 \<in> set (labelsOf STATIC_METADATA_DESCRIPTORS b) \<longleftrightarrow> flag b 1"
  by (auto simp: labelsOf_def STATIC_METADATA_DESCRIPTORS_def)

lemma parseHDRStaticMetadataDataBlock_supportsHDR10:
  "supportsHDR10 (fst (parseHDRStaticMetadataDataBlock r ws startAddress blockLength
                         (emptyExtendedTagDataBlock blockLength)))
     = (payloadBit r startAddress blockLength 1 4 \<and> payloadBit r startAddress blockLength 2 1)"
  by (auto simp: parseHDRStaticMetadataDataBlock_def emptyExtendedTagDataBlock_def Let_def
                 pq_in_labelsOf type1_in_labelsOf payloadBit_def)

lemma u8OrZero_createBlockReader:
  "u8OrZero (createBlockReader bytes bi bo) off
     = (if bo + off < length bytes then unat (bytes ! (bo + off)) else 0)"
  by (simp add: u8OrZero_def u8_eq createBlockReader_def)

text \<open>
  Claim C4 (HDR10 derivation).  For an extended-tag data block whose extended-tag code
  is 6 (HDR static metadata), the decoded \<open>supportsHDR10\<close> is true exactly when byte 1
  of the payload, the EOTF bitmap, has the bit of "SMPTE ST2084 (PQ)" (bit 2, mask 4)
  and byte 2, the static metadata descriptor bitmap, has the bit of "Static Metadata
  Type 1" (bit 0, mask 1).  The witness gives the two payloads of the claim:
  \<open>06 0c 01 78 5a 1e\<close> is HDR10, \<open>06 08 01\<close> is not.
\<close>

theorem C4_supportsHDR10_iff:
  assumes "u8OrZero r startAddress = 6"
  shows "supportsHDR10 (fst (parseExtendedTagDataBlock r ws startAddress blockLength context))
           = (payloadBit r startAddress blockLength 1 4
              \<and> payloadBit r startAddress blockLength 2 1)"
  using assms
  by (simp add: parseExtendedTagDataBlock_def Let_def
                parseHDRStaticMetadataDataBlock_supportsHDR10)

theorem C4_supportsHDR10_witness:
  "supportsHDR10 (fst (parseExtendedTagDataBlock
      (createBlockReader [0x06, 0x0c, 0x01, 0x78, 0x5a, 0x1e] 1 0) [] 0 6 None)) = True
   \<and> supportsHDR10 (fst (parseExtendedTagDataBlock
      (createBlockReader [0x06, 0x08, 0x01] 1 0) [] 0 3 None)) = False"
  using C4_supportsHDR10_iff
          [of "createBlockReader [0x06, 0x0c, 0x01, 0x78, 0x5a, 0x1e] 1 0" 0 "[]" 6 None]
        C4_supportsHDR10_iff [of "createBlockReader [0x06, 0x08, 0x01] 1 0" 0 "[]" 3 None]
  by (simp add: u8OrZero_createBlockReader payloadBit_def flag_def)

subsection \<open>Refresh-rate aggregation\<close>


lemma wholeHz_num: "wholeHz (num n) \<longleftrightarrow> 0 < n"
  by (simp add: wholeHz_def num_def)







lemma js_less_num [simp]: "js_less (num a) (num b) \<longleftrightarrow> a < b"
  by (simp add: num_def)

lemma js_less_num_PosInfinity [simp]: "js_less (num a) PosInfinity"
  by (simp add: num_def)

lemma js_less_PosInfinity [simp]: "\<not> js_less PosInfinity x"
  by (cases x) simp_all

lemma isFinite_num [simp]: "isFinite (num a)"
  by (simp add: num_def)

lemma num_eq_iff [simp]: "num a = num b \<longleftrightarrow> a = b"
  by (simp add: num_def)

lemma num_neq_PosInfinity [simp]: "num a \<noteq> PosInfinity" "PosInfinity \<noteq> num a"
  by (simp_all add: num_def)

lemma Num_0_num: "Num 0 = num 0"
  by (simp add: num_def)

lemma js_le_num [simp]: "js_le (num a) (num b) \<longleftrightarrow> a \<le> b"
  by (auto simp: num_def)

lemma Math_min_num [simp]: "Math_min (num a) (num b) = num (min a b)"
  by (auto simp: num_def min_def)

lemma Math_max_num [simp]: "Math_max (num a) (num b) = num (max a b)"
  by (auto simp: num_def max_def)







lemma usableRate_None [simp]: "usableRate None = None"
  by (simp add: usableRate_def)





































subsection \<open>The static range and the VRR range\<close>


lemma lowerTo_num [simp]: "lowerTo (num a) (num b) = num (min a b)"
  by (auto simp: lowerTo_def min_def)

lemma lowerTo_PosInfinity [simp]: "lowerTo PosInfinity (num b) = num b"
  by (simp add: lowerTo_def)

lemma raiseTo_num [simp]: "raiseTo (num a) (num b) = num (max a b)"
  by (auto simp: raiseTo_def max_def)






















lemma Math_round_num [simp]: "Math_round (num n) = num n"
proof -
  have "\<lfloor>(1::rat) / 2\<rfloor> = 0" by (simp add: floor_eq_iff)
  then show ?thesis by (simp add: num_def)
qed

lemma usableRate_num: "usableRate (Some (num n)) = (if 0 < n then Some (num n) else None)"
  by (simp add: usableRate_def Num_0_num Let_def)

lemma usableRate_positive:
  "usableRate (map_option num (positive n)) = map_option num (positive n)"
  by (simp add: positive_def usableRate_num)






subsection \<open>Warnings are only appended\<close>

lemma appendsOnly_iff:
  "appendsOnly ws ws' \<longleftrightarrow> (\<exists>ex. ws' = ws @ ex \<and> (\<forall>w\<in>set ex. code w \<in> set laterCodes))"
proof
  assume a: "appendsOnly ws ws'"
  then have "ws' = ws @ drop (length ws) ws'"
    unfolding appendsOnly_def by (metis append_take_drop_id)
  with a show "\<exists>ex. ws' = ws @ ex \<and> (\<forall>w\<in>set ex. code w \<in> set laterCodes)"
    unfolding appendsOnly_def list_all_iff by blast
next
  assume "\<exists>ex. ws' = ws @ ex \<and> (\<forall>w\<in>set ex. code w \<in> set laterCodes)"
  then show "appendsOnly ws ws'"
    unfolding appendsOnly_def list_all_iff by auto
qed


lemma appendsOnly_trans: "appendsOnly a b \<Longrightarrow> appendsOnly b c \<Longrightarrow> appendsOnly a c"
  unfolding appendsOnly_iff by auto

lemma appendsOnly_warn:
  "c \<in> set laterCodes \<Longrightarrow> appendsOnly ws w \<Longrightarrow> appendsOnly ws (warn w c bi off)"
  unfolding appendsOnly_iff warn_def by auto

lemma appendsOnly_u8_log: "appendsOnly ws w \<Longrightarrow> appendsOnly ws (u8_log r w off)"
  by (simp add: u8_log_def readU8_def appendsOnly_warn laterCodes_def)

lemma appendsOnly_reads: "appendsOnly ws w \<Longrightarrow> appendsOnly ws (reads r w offs)"
  unfolding reads_def by (induction offs arbitrary: w) (simp_all add: appendsOnly_u8_log)




lemma appendsOnly_parseDtd:
  "appendsOnly ws w \<Longrightarrow> appendsOnly ws (snd (parseDtd r w i))"
  unfolding parseDtd_def Let_def split_def
  by (auto intro!: appendsOnly_reads split: option.splits)

subsection \<open>Determinism\<close>



subsection \<open>The exception handler of the extension loop\<close>










subsection \<open>The recovery scan\<close>

lemma parseExtendedTagDataBlock_scdb:
  "u8OrZero r s = HDMI_FORUM_SCDB
     \<Longrightarrow> fst (parseExtendedTagDataBlock r w s len ctx)
           = fst (parseHDMIForumSCDB r [] s len (emptyExtendedTagDataBlock len))"
  by (simp add: parseExtendedTagDataBlock_def Let_def HDMI_FORUM_SCDB_def
                parseHDMIForumSCDB_def)

lemma u8OrZero_scdb: "u8OrZero r s = HDMI_FORUM_SCDB \<longleftrightarrow> u8 r s = Some HDMI_FORUM_SCDB"
  by (cases "u8 r s") (simp_all add: u8OrZero_def HDMI_FORUM_SCDB_def)

lemma find_scdbCandidate_None:
  "u8 r i = None \<Longrightarrow> find (scdbCandidate r e) [i..<e] = None"
proof -
  assume n: "u8 r i = None"
  have "\<not> scdbCandidate r e j" if "j \<in> set [i..<e]" for j
    using u8_None_mono[OF n, of j] that by (simp add: scdbCandidate_def)
  then show ?thesis by (simp add: find_None_iff)
qed

lemma recoverScdb_loop_collection:
  "scanCollection (recoverScdb_loop r e i st)
     = scanCollection st
       @ (case find (scdbCandidate r e) [i..<e] of None \<Rightarrow> [] | Some j \<Rightarrow> [scdbBlockAt r j])"
proof (induction "e - i" arbitrary: i st)
  case 0
  then show ?case by (simp add: recoverScdb_loop.simps[of r e i st])
next
  case (Suc n)
  then have lt: "i < e" and n: "n = e - Suc i" by simp_all
  note ih = Suc.hyps(1)[OF n]
  have up: "[i..<e] = i # [Suc i..<e]" using lt by (simp add: upt_conv_Cons)
  show ?case
  proof (cases "u8 r i")
    case None
    then show ?thesis
      using lt find_scdbCandidate_None[OF None, of e]
      by (simp add: recoverScdb_loop.simps[of r e i st])
  next
    case (Some hb)
    show ?thesis
    proof (cases "scdbCandidate r e i")
      case True
      then show ?thesis
        using lt Some
        by (simp add: recoverScdb_loop.simps[of r e i st] Let_def split_def up
                      scdbCandidate_def u8OrZero_scdb[symmetric] parseExtendedTagDataBlock_scdb
                      scdbBlockAt_def u8OrZero_def)
    next
      case False
      then show ?thesis
        using lt Some
        by (auto simp add: recoverScdb_loop.simps[of r e i st] Let_def split_def up ih
                      scdbCandidate_def u8OrZero_scdb)
    qed
  qed
qed

lemma isScdbBlock_scdbBlockAt: "isScdbBlock (scdbBlockAt r i)"
  by (simp add: scdbBlockAt_def Let_def parseHDMIForumSCDB_def)

text \<open>
  Claim C7 (recovery scan for the HDMI Forum SCDB).  For a collection that ends at
  \<open>endAddress\<close> (the extension's \<open>dtdStart\<close>, at least 4): if the primary scan found an
  SCDB block, the collection is what the primary scan produced; otherwise it is that
  followed by the SCDB block decoded at the first candidate offset of the range from 4
  to \<open>endAddress\<close>, if there is a candidate, and by nothing if there is none.  A
  candidate is an offset that holds an extended-tag header with a nonzero length that
  fits inside the range and whose next byte is \<open>0x79\<close>; the first candidate is one, no
  offset of the range before it is one, and the block decoded there is an SCDB block.
\<close>

theorem C7_scdb_recovery_scan:
  "START_DATA_BLOCK \<le> endAddress \<Longrightarrow>
     fst (parseDataBlockCollection r endAddress ctx ws)
       = (let primary = scanCollection (primaryScan r endAddress ctx ws)
          in if list_ex isScdbBlock primary then primary
             else primary @ (case firstScdbCandidate r endAddress of
                               None \<Rightarrow> []
                             | Some i \<Rightarrow> [scdbBlockAt r i]))
     \<and> (\<forall>i. firstScdbCandidate r endAddress = Some i \<longrightarrow>
            isScdbBlock (scdbBlockAt r i) \<and> scdbCandidate r endAddress i
            \<and> START_DATA_BLOCK \<le> i \<and> i < endAddress
            \<and> (\<forall>j. START_DATA_BLOCK \<le> j \<and> j < i \<longrightarrow> \<not> scdbCandidate r endAddress j))"
proof (intro conjI allI impI)
  assume "START_DATA_BLOCK \<le> endAddress"
  then show "fst (parseDataBlockCollection r endAddress ctx ws)
       = (let primary = scanCollection (primaryScan r endAddress ctx ws)
          in if list_ex isScdbBlock primary then primary
             else primary @ (case firstScdbCandidate r endAddress of
                               None \<Rightarrow> []
                             | Some i \<Rightarrow> [scdbBlockAt r i]))"
    by (simp add: parseDataBlockCollection_def Let_def recoverScdb_loop_collection
                  firstScdbCandidate_def)
next
  fix i
  assume f: "firstScdbCandidate r endAddress = Some i"
  show "isScdbBlock (scdbBlockAt r i)" by (rule isScdbBlock_scdbBlockAt)
  from f obtain k where k: "k < length [START_DATA_BLOCK..<endAddress]"
      "scdbCandidate r endAddress ([START_DATA_BLOCK..<endAddress] ! k)"
      "i = [START_DATA_BLOCK..<endAddress] ! k"
      "\<forall>j<k. \<not> scdbCandidate r endAddress ([START_DATA_BLOCK..<endAddress] ! j)"
    unfolding firstScdbCandidate_def find_Some_iff by blast
  from k(1,3) have i: "i = START_DATA_BLOCK + k" "START_DATA_BLOCK + k < endAddress" by simp_all
  from k(2,3) show "scdbCandidate r endAddress i" by simp
  from i show "START_DATA_BLOCK \<le> i" by simp
  from i show "i < endAddress" by simp
  fix j
  assume j: "START_DATA_BLOCK \<le> j \<and> j < i"
  then have "j - START_DATA_BLOCK < k" using i by linarith
  with k(4) have "\<not> scdbCandidate r endAddress ([START_DATA_BLOCK..<endAddress] ! (j - START_DATA_BLOCK))"
    by blast
  moreover have "[START_DATA_BLOCK..<endAddress] ! (j - START_DATA_BLOCK) = j"
    using j i by simp
  ultimately show "\<not> scdbCandidate r endAddress j" by simp
qed

theorem C7_scdb_recovery_scan_witness:
  "(let r = createBlockReader
              [0x02, 0x03, 0x0D, 0x00, 0x48, 0x10, 0x1F, 0x04, 0xE4, 0x79, 0x01, 0x00, 0x00] 1 0
    in START_DATA_BLOCK \<le> 13
       \<and> \<not> list_ex isScdbBlock (scanCollection (primaryScan r 13 None []))
       \<and> firstScdbCandidate r 13 = Some 8
       \<and> fst (parseDataBlockCollection r 13 None [])
           = scanCollection (primaryScan r 13 None []) @ [scdbBlockAt r 8]
       \<and> isScdbBlock (scdbBlockAt r 8))"
proof -
  let ?r = "createBlockReader
              [0x02, 0x03, 0x0D, 0x00, 0x48, 0x10, 0x1F, 0x04, 0xE4, 0x79, 0x01, 0x00, 0x00] 1 0"
  have s: "START_DATA_BLOCK \<le> 13" by (simp add: START_DATA_BLOCK_def)
  have p: "\<not> list_ex isScdbBlock (scanCollection (primaryScan ?r 13 None []))"
    by code_simp
  have f: "firstScdbCandidate ?r 13 = Some 8"
    by code_simp
  from C7_scdb_recovery_scan[OF s, of ?r None "[]"] s p f show ?thesis
    by (simp add: Let_def)
qed

subsection \<open>Merged video blocks\<close>

lemma parseVideoDataBlock_loop_fst:
  "fst (parseVideoDataBlock_loop r ws s l i acc) = fst (parseVideoDataBlock_loop r ws' s l i acc)"
proof (induction r ws s l i acc arbitrary: ws' rule: parseVideoDataBlock_loop.induct)
  case (1 r warnings startAddress blockLength index svds)
  show ?case
  proof (cases "index < blockLength")
    case False
    then show ?thesis
      by (simp add: parseVideoDataBlock_loop.simps[of r warnings startAddress blockLength index svds]
                    parseVideoDataBlock_loop.simps[of r ws' startAddress blockLength index svds])
  next
    case lt: True
    show ?thesis
    proof (cases "u8 r (startAddress + index)")
      case None
      with lt show ?thesis
        by (simp add: parseVideoDataBlock_loop.simps[of r warnings startAddress blockLength index svds]
                      parseVideoDataBlock_loop.simps[of r ws' startAddress blockLength index svds]
                      Let_def)
    next
      case (Some b)
      have "fst (parseVideoDataBlock_loop r (reads r warnings [startAddress + index]) startAddress
                   blockLength (index + 1) (svds @ [parseShortVideoDescriptor b]))
          = fst (parseVideoDataBlock_loop r (reads r ws' [startAddress + index]) startAddress
                   blockLength (index + 1) (svds @ [parseShortVideoDescriptor b]))"
        by (rule 1[OF lt refl Some])
      with lt Some show ?thesis
        by (simp add: parseVideoDataBlock_loop.simps[of r warnings startAddress blockLength index svds]
                      parseVideoDataBlock_loop.simps[of r ws' startAddress blockLength index svds]
                      Let_def)
    qed
  qed
qed

lemma parseVideoDataBlock_fst:
  "fst (parseVideoDataBlock r ws (Suc index) len) = mergedVideoBlock r [(index, t, len)]"
  "fst (snd (parseVideoDataBlock r ws (Suc index) len)) = Some (mergedVideoBlock r [(index, t, len)])"
  using parseVideoDataBlock_loop_fst[of r ws "Suc index" len 0 "[]" "[]"]
  by (simp_all add: parseVideoDataBlock_def mergedVideoBlock_def svdsOfHeader_def
                    Let_def split_def)

lemma mergeVideoBlocks_merged:
  "mergeVideoBlocks (mergedVideoBlock r vs) (mergedVideoBlock r [h]) = mergedVideoBlock r (vs @ [h])"
  by (simp add: mergeVideoBlocks_def mergedVideoBlock_def)

lemma filter_update_single:
  "slot < length xs \<Longrightarrow> filter P xs = [xs ! slot] \<Longrightarrow> P (xs ! slot) \<Longrightarrow> P y
     \<Longrightarrow> filter P (xs[slot := y]) = [y]"
proof (induction xs arbitrary: slot)
  case Nil
  then show ?case by simp
next
  case (Cons x xs)
  show ?case
  proof (cases slot)
    case 0
    with Cons.prems show ?thesis by simp
  next
    case (Suc k)
    have k: "k < length xs" using Cons.prems(1) Suc by simp
    have px: "\<not> P x"
    proof
      assume "P x"
      with Cons.prems(2) Suc have "filter P xs = []" by simp
      moreover have "xs ! k \<in> set xs" using k by simp
      ultimately show False using Cons.prems(3) Suc by (simp add: filter_empty_conv)
    qed
    with Cons.prems Suc k have "filter P (xs[k := y]) = [y]"
      by (intro Cons.IH) simp_all
    with px Suc show ?thesis by simp
  qed
qed

lemma videoSlots_warnings [simp]:
  "videoSlots r vs (st\<lparr>scanWarnings := w\<rparr>) = videoSlots r vs st"
  by (simp add: videoSlots_def split: option.splits)

lemma parseDataBlock_other:
  assumes "t \<noteq> 2"
  shows "primaryVideoBlock (parseDataBlock r i t l st) = primaryVideoBlock st"
    and "\<exists>b. scanCollection (parseDataBlock r i t l st) = scanCollection st @ [b]
             \<and> \<not> isVideoBlock b
             \<and> blockTag b = (if t \<in> set [1, 3, 4, 7] then Some t else None)"
  using assms by (simp_all add: parseDataBlock_def Let_def split_def)

lemma parseDataBlock_first_video:
  assumes "primaryVideoBlock st = None"
  shows "primaryVideoBlock (parseDataBlock r i 2 l st)
           = Some (length (scanCollection st), mergedVideoBlock r [(i, 2, l)])"
    and "scanCollection (parseDataBlock r i 2 l st)
           = scanCollection st @ [Some (VideoBlock (mergedVideoBlock r [(i, 2, l)]))]"
  using assms
  by (simp_all add: parseDataBlock_def Let_def split_def parseVideoDataBlock_fst[where t = 2])

lemma parseDataBlock_later_video:
  assumes "primaryVideoBlock st = Some (slot, mergedVideoBlock r vs)"
  shows "primaryVideoBlock (parseDataBlock r i 2 l st)
           = Some (slot, mergedVideoBlock r (vs @ [(i, 2, l)]))"
    and "scanCollection (parseDataBlock r i 2 l st)
           = (scanCollection st)[slot := Some (VideoBlock (mergedVideoBlock r (vs @ [(i, 2, l)])))]
             @ [None]"
  using assms
  by (simp_all add: parseDataBlock_def Let_def split_def parseVideoDataBlock_fst[where t = 2]
                    mergeVideoBlocks_merged)

lemma parseDataBlock_step:
  assumes "videoSlots r vs st"
  shows "videoSlots r (vs @ (if t = 2 then [(i, t, l)] else [])) (parseDataBlock r i t l st)"
    and "map blockTag (scanCollection (parseDataBlock r i t l st))
           = map blockTag (scanCollection st) @ slotTags (primaryVideoBlock st \<noteq> None) [(i, t, l)]"
    and "(primaryVideoBlock (parseDataBlock r i t l st) \<noteq> None)
           = (primaryVideoBlock st \<noteq> None \<or> t = 2)"
proof -
  have "videoSlots r (vs @ (if t = 2 then [(i, t, l)] else [])) (parseDataBlock r i t l st)
        \<and> map blockTag (scanCollection (parseDataBlock r i t l st))
           = map blockTag (scanCollection st) @ slotTags (primaryVideoBlock st \<noteq> None) [(i, t, l)]
        \<and> (primaryVideoBlock (parseDataBlock r i t l st) \<noteq> None)
           = (primaryVideoBlock st \<noteq> None \<or> t = 2)"
  proof (cases "t = 2")
    case False
    from parseDataBlock_other(2)[OF False, of r i l st] obtain b where
      b: "scanCollection (parseDataBlock r i t l st) = scanCollection st @ [b]"
         "\<not> isVideoBlock b" "blockTag b = (if t \<in> set [1, 3, 4, 7] then Some t else None)"
      by blast
    note p = parseDataBlock_other(1)[OF False, of r i l st]
    show ?thesis using assms False b p
      by (auto simp: videoSlots_def nth_append split: option.splits)
  next
    case True
    show ?thesis
    proof (cases "primaryVideoBlock st")
      case None
      with assms have v: "vs = []" "filter isVideoBlock (scanCollection st) = []"
        by (simp_all add: videoSlots_def)
      show ?thesis
        using True None v parseDataBlock_first_video[OF None, of r i l]
        by (simp add: videoSlots_def)
    next
      case (Some sp)
      obtain slot pv where sp: "sp = (slot, pv)" by (cases sp)
      with assms Some have v: "vs \<noteq> []" "pv = mergedVideoBlock r vs"
          "slot < length (scanCollection st)"
          "scanCollection st ! slot = Some (VideoBlock pv)"
          "filter isVideoBlock (scanCollection st) = [Some (VideoBlock pv)]"
        by (simp_all add: videoSlots_def)
      have pvb: "primaryVideoBlock st = Some (slot, mergedVideoBlock r vs)"
        using Some sp v(2) by simp
      let ?m = "mergedVideoBlock r (vs @ [(i, 2, l)])"
      have f: "filter isVideoBlock ((scanCollection st)[slot := Some (VideoBlock ?m)])
                 = [Some (VideoBlock ?m)]"
        using v by (intro filter_update_single) simp_all
      have m: "map blockTag ((scanCollection st)[slot := Some (VideoBlock ?m)])
                 = map blockTag (scanCollection st)"
        using v(3,4) by (simp add: map_update list_update_same_conv)
      show ?thesis
        using True v(1,3) f m parseDataBlock_later_video[OF pvb, of i l] Some
        by (simp add: videoSlots_def nth_append)
    qed
  qed
  then show "videoSlots r (vs @ (if t = 2 then [(i, t, l)] else [])) (parseDataBlock r i t l st)"
    and "map blockTag (scanCollection (parseDataBlock r i t l st))
           = map blockTag (scanCollection st) @ slotTags (primaryVideoBlock st \<noteq> None) [(i, t, l)]"
    and "(primaryVideoBlock (parseDataBlock r i t l st) \<noteq> None)
           = (primaryVideoBlock st \<noteq> None \<or> t = 2)"
    by blast+
qed

lemma slotTags_Cons:
  "slotTags seen ((i, t, l) # hs) = slotTags seen [(i, t, l)] @ slotTags (seen \<or> t = 2) hs"
  by simp

lemma length_slotTags [simp]: "length (slotTags seen hs) = length hs"
  by (induction seen hs rule: slotTags.induct) simp_all

lemma parseDataBlockCollection_loop_video:
  "videoSlots r vs st \<Longrightarrow>
     videoSlots r (vs @ filter (\<lambda>(index, tagCode, len). tagCode = 2) (dataBlockHeaders r e i))
       (parseDataBlockCollection_loop r e i st)
     \<and> map blockTag (scanCollection (parseDataBlockCollection_loop r e i st))
         = map blockTag (scanCollection st)
           @ slotTags (primaryVideoBlock st \<noteq> None) (dataBlockHeaders r e i)"
proof (induction r e i st arbitrary: vs rule: parseDataBlockCollection_loop.induct)
  case (1 r endAddress index st)
  show ?case
  proof (cases "index < endAddress")
    case False
    with 1(2) show ?thesis
      by (simp add: parseDataBlockCollection_loop.simps[of r endAddress index st]
                    dataBlockHeaders.simps[of r endAddress index])
  next
    case lt: True
    show ?thesis
    proof (cases "u8 r index")
      case None
      with lt 1(2) show ?thesis
        by (simp add: parseDataBlockCollection_loop.simps[of r endAddress index st]
                      dataBlockHeaders.simps[of r endAddress index])
    next
      case (Some hb)
      let ?t = "drop_bit 5 hb AND 7" and ?l = "hb AND 31"
      let ?st1 = "st\<lparr>scanWarnings := reads r (scanWarnings st) [index]\<rparr>"
      let ?st2 = "parseDataBlock r index ?t ?l ?st1"
      let ?vs2 = "vs @ (if ?t = 2 then [(index, ?t, ?l)] else [])"
      have v1: "videoSlots r vs ?st1" using 1(2) by simp
      note step = parseDataBlock_step[OF v1, where t = ?t and i = index and l = ?l]
      have ih: "videoSlots r (?vs2 @ filter (\<lambda>(index, tagCode, len). tagCode = 2)
                                    (dataBlockHeaders r endAddress (index + ?l + 1)))
                  (parseDataBlockCollection_loop r endAddress (index + ?l + 1) ?st2)
                \<and> map blockTag (scanCollection
                      (parseDataBlockCollection_loop r endAddress (index + ?l + 1) ?st2))
                    = map blockTag (scanCollection ?st2)
                      @ slotTags (primaryVideoBlock ?st2 \<noteq> None)
                          (dataBlockHeaders r endAddress (index + ?l + 1))"
        by (rule 1(1)[OF lt refl Some refl refl step(1)])
      have l: "parseDataBlockCollection_loop r endAddress index st
                 = parseDataBlockCollection_loop r endAddress (index + ?l + 1) ?st2"
        using lt Some
        by (simp add: parseDataBlockCollection_loop.simps[of r endAddress index st] Let_def)
      have h: "dataBlockHeaders r endAddress index
                 = (index, ?t, ?l) # dataBlockHeaders r endAddress (index + ?l + 1)"
        using lt Some by (simp add: dataBlockHeaders.simps[of r endAddress index])
      let ?rest = "dataBlockHeaders r endAddress (index + ?l + 1)"
      let ?seen = "primaryVideoBlock st \<noteq> None"
      have p1: "primaryVideoBlock ?st1 = primaryVideoBlock st"
        and c1: "scanCollection ?st1 = scanCollection st" by simp_all
      have fl: "vs @ filter (\<lambda>(index, tagCode, len). tagCode = 2) ((index, ?t, ?l) # ?rest)
                  = ?vs2 @ filter (\<lambda>(index, tagCode, len). tagCode = 2) ?rest"
        by simp
      have A: "videoSlots r (vs @ filter (\<lambda>(index, tagCode, len). tagCode = 2)
                                    ((index, ?t, ?l) # ?rest))
                 (parseDataBlockCollection_loop r endAddress (index + ?l + 1) ?st2)"
        unfolding fl using ih by (rule conjunct1)
      have "map blockTag (scanCollection
               (parseDataBlockCollection_loop r endAddress (index + ?l + 1) ?st2))
            = map blockTag (scanCollection ?st2)
              @ slotTags (primaryVideoBlock ?st2 \<noteq> None) ?rest"
        using ih by (rule conjunct2)
      also have "map blockTag (scanCollection ?st2)
                   = map blockTag (scanCollection st) @ slotTags ?seen [(index, ?t, ?l)]"
        using step(2) unfolding p1 c1 .
      also have "(primaryVideoBlock ?st2 \<noteq> None) = (?seen \<or> ?t = 2)"
        using step(3) unfolding p1 .
      finally have B: "map blockTag (scanCollection
               (parseDataBlockCollection_loop r endAddress (index + ?l + 1) ?st2))
            = map blockTag (scanCollection st) @ slotTags ?seen ((index, ?t, ?l) # ?rest)"
        by (subst slotTags_Cons) (simp only: append_assoc)
      show ?thesis unfolding l h using A B by (rule conjI)
    qed
  qed
qed

lemma videoSlots_filter:
  "videoSlots r vs st \<Longrightarrow>
     filter isVideoBlock (scanCollection st)
       = (if vs = [] then [] else [Some (VideoBlock (mergedVideoBlock r vs))])"
  by (auto simp: videoSlots_def split: option.splits)

lemma primaryScan_video:
  "videoSlots r (videoHeaders r e) (primaryScan r e ctx ws)"
  "map blockTag (scanCollection (primaryScan r e ctx ws))
     = slotTags False (dataBlockHeaders r e START_DATA_BLOCK)"
  using parseDataBlockCollection_loop_video[of r "[]"
          "\<lparr>scanCollection = [], primaryVideoBlock = None, scanContext = ctx, scanWarnings = ws\<rparr>"
          e START_DATA_BLOCK]
  by (simp_all add: primaryScan_def videoHeaders_def videoSlots_def)

lemma not_isVideoBlock_scdbBlockAt: "\<not> isVideoBlock (scdbBlockAt r i)"
  by (simp add: scdbBlockAt_def Let_def)

text \<open>
  Claim C6 (video data blocks are merged).  For a collection that ends at \<open>endAddress\<close>
  (at least 4), with \<open>hs\<close> the headers that the walk reaches by advancing by each
  block's declared length plus one, and \<open>vs\<close> the video headers among them: the
  decoded collection holds no video block if \<open>vs\<close> is empty and otherwise exactly one,
  whose descriptors are the descriptors of the blocks of \<open>vs\<close> concatenated in the
  order of the walk and whose length is the sum of their lengths; every header has its
  slot, in the order of the walk, the slot of the first video header holds the video
  block and the slot of each later video header is empty; the only entry beyond these
  slots is the block that the recovery scan may append.
\<close>

theorem C6_video_blocks_merged:
  "START_DATA_BLOCK \<le> endAddress \<Longrightarrow>
     (let coll = fst (parseDataBlockCollection r endAddress ctx ws);
          hs = dataBlockHeaders r endAddress START_DATA_BLOCK;
          vs = videoHeaders r endAddress
      in filter isVideoBlock coll
           = (if vs = [] then [] else [Some (VideoBlock (mergedVideoBlock r vs))])
         \<and> map blockTag (take (length hs) coll) = slotTags False hs
         \<and> length hs \<le> length coll \<and> length coll \<le> length hs + 1)"
proof -
  assume s: "START_DATA_BLOCK \<le> endAddress"
  let ?p = "scanCollection (primaryScan r endAddress ctx ws)"
  let ?hs = "dataBlockHeaders r endAddress START_DATA_BLOCK"
  have len: "length ?p = length ?hs"
    using arg_cong[OF primaryScan_video(2)[of r endAddress ctx ws], of length] by simp
  have f: "filter isVideoBlock ?p
             = (if videoHeaders r endAddress = [] then []
                else [Some (VideoBlock (mergedVideoBlock r (videoHeaders r endAddress)))])"
    by (rule videoSlots_filter[OF primaryScan_video(1)])
  have c: "fst (parseDataBlockCollection r endAddress ctx ws) = ?p
           \<or> (\<exists>i. fst (parseDataBlockCollection r endAddress ctx ws) = ?p @ [scdbBlockAt r i])"
    using s
    by (auto simp add: parseDataBlockCollection_def Let_def recoverScdb_loop_collection
             split: option.splits)
  from c show ?thesis
  proof
    assume "fst (parseDataBlockCollection r endAddress ctx ws) = ?p"
    then show ?thesis
      using f len primaryScan_video(2)[of r endAddress ctx ws] by (simp add: Let_def)
  next
    assume "\<exists>i. fst (parseDataBlockCollection r endAddress ctx ws) = ?p @ [scdbBlockAt r i]"
    then obtain i where "fst (parseDataBlockCollection r endAddress ctx ws) = ?p @ [scdbBlockAt r i]"
      by blast
    then show ?thesis
      using f len primaryScan_video(2)[of r endAddress ctx ws] not_isVideoBlock_scdbBlockAt[of r i]
      by (simp add: Let_def)
  qed
qed

theorem C6_video_blocks_merged_witness:
  "(let r = createBlockReader
              [0x02, 0x03, 0x0D, 0x00, 0x42, 0x10, 0x1F, 0x23, 0x09, 0x07, 0x07, 0x41, 0x04] 1 0;
        coll = fst (parseDataBlockCollection r 13 None [])
    in START_DATA_BLOCK \<le> 13
       \<and> videoHeaders r 13 = [(4, 2, 2), (11, 2, 1)]
       \<and> filter isVideoBlock coll
           = [Some (VideoBlock
                \<lparr>videoDataLength = 3,
                 shortVideoDescriptors =
                   [\<lparr>vic = 16, isNativeResolution = False\<rparr>,
                    \<lparr>vic = 31, isNativeResolution = False\<rparr>,
                    \<lparr>vic = 4, isNativeResolution = False\<rparr>]\<rparr>)]
       \<and> map blockTag (take 3 coll) = [Some 2, Some 1, None])"
proof -
  let ?r = "createBlockReader
              [0x02, 0x03, 0x0D, 0x00, 0x42, 0x10, 0x1F, 0x23, 0x09, 0x07, 0x07, 0x41, 0x04] 1 0"
  have s: "START_DATA_BLOCK \<le> 13" by (simp add: START_DATA_BLOCK_def)
  have h: "dataBlockHeaders ?r 13 START_DATA_BLOCK = [(4, 2, 2), (7, 1, 3), (11, 2, 1)]"
    by code_simp
  have v: "videoHeaders ?r 13 = [(4, 2, 2), (11, 2, 1)]"
    unfolding videoHeaders_def h by simp
  have m: "mergedVideoBlock ?r [(4, 2, 2), (11, 2, 1)]
             = \<lparr>videoDataLength = 3,
                 shortVideoDescriptors =
                   [\<lparr>vic = 16, isNativeResolution = False\<rparr>,
                    \<lparr>vic = 31, isNativeResolution = False\<rparr>,
                    \<lparr>vic = 4, isNativeResolution = False\<rparr>]\<rparr>"
    by code_simp
  from C6_video_blocks_merged[OF s, of ?r None "[]"] s show ?thesis
    unfolding Let_def h v m by (simp add: numeral_3_eq_3)
qed

end
